theory Spec2Isabelle
  imports Main "HOL-Library.Sublist"
begin

section \<open>Values and documents\<close>

text \<open>
  The server (\<^verbatim>\<open>src/server.py\<close>) keeps one document per username in the
  collection \<^verbatim>\<open>"DDNA"\<close>. A document is a Python \<^verbatim>\<open>dict\<close> from field
  names to values. The program writes two kinds of value: strings (username, password,
  name, email) and the workspace map, a \<^verbatim>\<open>dict\<close> from workspace names to
  workspace states. A state is \<^verbatim>\<open>Dict[str, Any]\<close> and the program never looks
  inside one, so the type of states is the parameter \<open>'st\<close>.
\<close>

datatype 'st fsvalue =
    VStr string
  | VMap "string \<rightharpoonup> 'st"

type_synonym 'st document = "string \<rightharpoonup> 'st fsvalue"

text \<open>A concrete type of states, for running the handlers on examples.\<close>

datatype json =
    JNull
  | JBool bool
  | JInt int
  | JStr string
  | JArray "json list"
  | JObject "(string \<times> json) list"

text \<open>Python's \<^verbatim>\<open>d.get(key)\<close> is the map lookup \<open>d key\<close> (\<open>None\<close> when the key is
  missing); \<^verbatim>\<open>d.get(key, default)\<close> is:\<close>

definition dict_get :: "('k \<rightharpoonup> 'v) \<Rightarrow> 'k \<Rightarrow> 'v \<Rightarrow> 'v" where
  "dict_get d key dflt = (case d key of None \<Rightarrow> dflt | Some v \<Rightarrow> v)"

section \<open>The document store\<close>

text \<open>
  Modelled from the spec: the Firestore client (\<^verbatim>\<open>firebase_admin.firestore\<close>) is an
  external library, not part of the repository. The spec describes it as a document
  store keyed by username with get, set and update-field operations on JSON-like
  documents, where update is a whole-field overwrite, and has every failure of a store
  call surface as HTTP 500.

  The handle \<^verbatim>\<open>db\<close> is a record: the documents it holds, and what it accepts. The
  client refuses some inputs before it stores anything, with \<^verbatim>\<open>ValueError\<close>:
  \<^verbatim>\<open>document(id)\<close> refuses a document id that does not give a document path (such
  as \<^verbatim>\<open>a/b\<close>), and a write refuses a map with a key it does not take (such as the
  empty string) or a state it cannot encode (such as one holding an integer beyond 64
  bits). Which ids, keys and states are accepted is the library's and the service's
  matter, so the three tests are fields of the store and the handlers are the same for
  every choice of them. A string is always accepted as a value, and a map is accepted
  entry by entry.

  \<^verbatim>\<open>document(id).get()\<close> returns a snapshot (\<open>None\<close> when \<^verbatim>\<open>doc.exists\<close> is
  false), \<^verbatim>\<open>.set(data)\<close> writes the whole document and
  \<^verbatim>\<open>.update({field: value})\<close> replaces one field of an existing document and raises
  \<^verbatim>\<open>NotFound\<close> when there is none. Every request is served alone (nothing else
  writes the store between the steps of one handler) and the store can be reached.
\<close>

record 'st store =
  documents :: "string \<rightharpoonup> 'st document"
  accepts_id :: "string \<Rightarrow> bool"
  accepts_key :: "string \<Rightarrow> bool"
  accepts_state :: "'st \<Rightarrow> bool"

datatype exn = TypeError | ValidationError | ValueError | NotFound

fun accepts_value :: "'st store \<Rightarrow> 'st fsvalue \<Rightarrow> bool" where
  "accepts_value db (VStr s) = True"
| "accepts_value db (VMap m) =
     (\<forall>k v. m k = Some v \<longrightarrow> accepts_key db k \<and> accepts_state db v)"

declare accepts_value.simps(2) [simp del]

definition accepts_document :: "'st store \<Rightarrow> 'st document \<Rightarrow> bool" where
  "accepts_document db data = (\<forall>field v. data field = Some v \<longrightarrow> accepts_value db v)"

definition doc_get :: "'st store \<Rightarrow> string \<Rightarrow> exn + 'st document option" where
  "doc_get db doc_id =
     (if accepts_id db doc_id then Inr (documents db doc_id) else Inl ValueError)"

definition doc_set :: "'st store \<Rightarrow> string \<Rightarrow> 'st document \<Rightarrow> exn + 'st store" where
  "doc_set db doc_id data =
     (if accepts_id db doc_id \<and> accepts_document db data
      then Inr (db\<lparr>documents := (documents db)(doc_id \<mapsto> data)\<rparr>)
      else Inl ValueError)"

definition doc_update ::
    "'st store \<Rightarrow> string \<Rightarrow> string \<Rightarrow> 'st fsvalue \<Rightarrow> exn + 'st store" where
  "doc_update db doc_id field v =
     (if accepts_id db doc_id \<and> accepts_value db v
      then (case documents db doc_id of
              None \<Rightarrow> Inl NotFound
            | Some data \<Rightarrow>
                Inr (db\<lparr>documents := (documents db)(doc_id \<mapsto> data(field \<mapsto> v))\<rparr>))
      else Inl ValueError)"

section \<open>Requests, responses and HTTP outcomes\<close>

record LoginRequest =
  username :: string
  password :: string

record 'st LoginResponse =
  status :: string
  message :: string
  workspaces :: "(string \<rightharpoonup> 'st) option"

record SignupRequest =
  username :: string
  password :: string
  name :: string
  email :: string

record SignupResponse =
  status :: string
  message :: string

record 'st CreateWorkspaceRequest =
  username :: string
  workspace_name :: string
  state :: 'st

record CreateWorkspaceResponse =
  status :: string
  message :: string

record GetWorkspacesRequest =
  username :: string

record 'st GetWorkspacesResponse =
  status :: string
  workspaces :: "string \<rightharpoonup> 'st"

record DeleteWorkspaceRequest =
  username :: string
  workspace_name :: string

record DeleteWorkspaceResponse =
  status :: string
  message :: string

text \<open>
  A handler either returns its response model, which FastAPI sends with HTTP 200, or
  raises \<^verbatim>\<open>HTTPException(status_code, detail)\<close>. The detail of a 500 is built as
  \<^verbatim>\<open>f"...: {str(e)}"\<close> from the exception caught; it is kept as the prefix and the
  exception.
\<close>

datatype detail =
    Detail string
  | DetailStr string exn

datatype 'a outcome =
    Response 'a
  | HTTPException nat detail

fun http_status :: "'a outcome \<Rightarrow> nat" where
  "http_status (Response body) = 200"
| "http_status (HTTPException status_code d) = status_code"

text \<open>What a handler's \<^verbatim>\<open>try\<close> block raises.\<close>

datatype raised =
    RaiseHTTP nat detail
  | Raise exn

text \<open>
  \<^verbatim>\<open>except Exception as e: raise HTTPException(500, f"{prefix}{str(e)}")\<close>, the only
  clause of login and signup. \<^verbatim>\<open>HTTPException\<close> is an \<^verbatim>\<open>Exception\<close>, so this
  clause would catch it too; the two \<^verbatim>\<open>try\<close> blocks raise none of their own.
\<close>

fun except_Exception :: "string \<Rightarrow> exn + 'a \<Rightarrow> 'a outcome" where
  "except_Exception pre (Inr body) = Response body"
| "except_Exception pre (Inl e) = HTTPException 500 (DetailStr pre e)"

text \<open>
  \<^verbatim>\<open>except HTTPException as he: raise he\<close> followed by the clause above, as the three
  workspace handlers have it.
\<close>

fun except_HTTPException :: "string \<Rightarrow> raised + 'a \<Rightarrow> 'a outcome" where
  "except_HTTPException pre (Inr body) = Response body"
| "except_HTTPException pre (Inl (RaiseHTTP status_code d)) = HTTPException status_code d"
| "except_HTTPException pre (Inl (Raise e)) = HTTPException 500 (DetailStr pre e)"

text \<open>
  Pydantic checks a response model's fields when the model is built. A workspace map
  passes for \<^verbatim>\<open>Dict[str, Dict[str, Any]]\<close>; a string does not.
\<close>

fun validate_workspaces :: "'st fsvalue \<Rightarrow> exn + (string \<rightharpoonup> 'st)" where
  "validate_workspaces (VMap m) = Inr m"
| "validate_workspaces (VStr s) = Inl ValidationError"

section \<open>The handlers\<close>

text \<open>\<^verbatim>\<open>POST /api/login\<close>\<close>

definition login_try ::
    "LoginRequest \<Rightarrow> 'st store \<Rightarrow> (exn + 'st LoginResponse) \<times> 'st store" where
  "login_try request db =
     (case doc_get db (LoginRequest.username request) of
        Inl e \<Rightarrow> (Inl e, db)
      | Inr None \<Rightarrow>
          (Inr \<lparr>LoginResponse.status = ''error'',
                LoginResponse.message = ''Username not found'',
                LoginResponse.workspaces = None\<rparr>, db)
      | Inr (Some user_data) \<Rightarrow>
          if user_data ''password'' \<noteq> Some (VStr (LoginRequest.password request))
          then
            (Inr \<lparr>LoginResponse.status = ''error'',
                  LoginResponse.message = ''Incorrect Password'',
                  LoginResponse.workspaces = None\<rparr>, db)
          else
            (case validate_workspaces (dict_get user_data ''workspaces'' (VMap Map.empty)) of
               Inl e \<Rightarrow> (Inl e, db)
             | Inr ws \<Rightarrow>
                 (Inr \<lparr>LoginResponse.status = ''success'',
                       LoginResponse.message = ''Successful'',
                       LoginResponse.workspaces = Some ws\<rparr>, db)))"

definition login ::
    "LoginRequest \<Rightarrow> 'st store \<Rightarrow> 'st LoginResponse outcome \<times> 'st store" where
  "login request db =
     (case login_try request db of
        (r, db') \<Rightarrow> (except_Exception ''Login failed: '' r, db'))"

text \<open>\<^verbatim>\<open>POST /api/signup\<close>\<close>

definition signup_try ::
    "SignupRequest \<Rightarrow> 'st store \<Rightarrow> (exn + SignupResponse) \<times> 'st store" where
  "signup_try request db =
     (case doc_get db (SignupRequest.username request) of
        Inl e \<Rightarrow> (Inl e, db)
      | Inr (Some doc) \<Rightarrow>
          (Inr \<lparr>SignupResponse.status = ''error'',
                SignupResponse.message = ''Username already exists''\<rparr>, db)
      | Inr None \<Rightarrow>
          (let user_data =
                 [''username'' \<mapsto> VStr (SignupRequest.username request),
                  ''password'' \<mapsto> VStr (SignupRequest.password request),
                  ''name'' \<mapsto> VStr (SignupRequest.name request),
                  ''email'' \<mapsto> VStr (SignupRequest.email request),
                  ''workspaces'' \<mapsto> VMap Map.empty]
           in (case doc_set db (SignupRequest.username request) user_data of
                 Inl e \<Rightarrow> (Inl e, db)
               | Inr db' \<Rightarrow>
                   (Inr \<lparr>SignupResponse.status = ''success'',
                         SignupResponse.message = ''Account created successfully''\<rparr>,
                    db'))))"

definition signup ::
    "SignupRequest \<Rightarrow> 'st store \<Rightarrow> SignupResponse outcome \<times> 'st store" where
  "signup request db =
     (case signup_try request db of
        (r, db') \<Rightarrow> (except_Exception ''Signup failed: '' r, db'))"

text \<open>
  \<^verbatim>\<open>POST /api/workspace\<close>. The handler reads the workspace map, sets the entry
  \<^verbatim>\<open>workspaces[request.workspace_name] = request.state\<close> and writes the whole map
  back. Item assignment on a string raises \<^verbatim>\<open>TypeError\<close>; a map that the store
  refuses raises \<^verbatim>\<open>ValueError\<close> in \<^verbatim>\<open>update\<close>, and nothing is written.
\<close>

definition quoted :: "string \<Rightarrow> string" where
  "quoted s = [CHR 0x27] @ s @ [CHR 0x27]"

definition create_update_workspace_try ::
    "'st CreateWorkspaceRequest \<Rightarrow> 'st store
      \<Rightarrow> (raised + CreateWorkspaceResponse) \<times> 'st store" where
  "create_update_workspace_try request db =
     (case doc_get db (CreateWorkspaceRequest.username request) of
        Inl e \<Rightarrow> (Inl (Raise e), db)
      | Inr None \<Rightarrow> (Inl (RaiseHTTP 404 (Detail ''User not found'')), db)
      | Inr (Some user_data) \<Rightarrow>
          (case dict_get user_data ''workspaces'' (VMap Map.empty) of
             VStr s \<Rightarrow> (Inl (Raise TypeError), db)
           | VMap ws \<Rightarrow>
               (case doc_update db (CreateWorkspaceRequest.username request) ''workspaces''
                       (VMap (ws(CreateWorkspaceRequest.workspace_name request
                                \<mapsto> CreateWorkspaceRequest.state request))) of
                  Inl e \<Rightarrow> (Inl (Raise e), db)
                | Inr db' \<Rightarrow>
                    (Inr \<lparr>CreateWorkspaceResponse.status = ''success'',
                          CreateWorkspaceResponse.message =
                            ''Workspace ''
                            @ quoted (CreateWorkspaceRequest.workspace_name request)
                            @ '' created/updated successfully''\<rparr>, db'))))"

definition create_update_workspace ::
    "'st CreateWorkspaceRequest \<Rightarrow> 'st store
      \<Rightarrow> CreateWorkspaceResponse outcome \<times> 'st store" where
  "create_update_workspace request db =
     (case create_update_workspace_try request db of
        (r, db') \<Rightarrow> (except_HTTPException ''Error creating workspace: '' r, db'))"

text \<open>\<^verbatim>\<open>POST /api/workspaces\<close>\<close>

definition get_all_workspaces_try ::
    "GetWorkspacesRequest \<Rightarrow> 'st store
      \<Rightarrow> (raised + 'st GetWorkspacesResponse) \<times> 'st store" where
  "get_all_workspaces_try request db =
     (case doc_get db (GetWorkspacesRequest.username request) of
        Inl e \<Rightarrow> (Inl (Raise e), db)
      | Inr None \<Rightarrow> (Inl (RaiseHTTP 404 (Detail ''User not found'')), db)
      | Inr (Some user_data) \<Rightarrow>
          (case validate_workspaces (dict_get user_data ''workspaces'' (VMap Map.empty)) of
             Inl e \<Rightarrow> (Inl (Raise e), db)
           | Inr ws \<Rightarrow>
               (Inr \<lparr>GetWorkspacesResponse.status = ''success'',
                     GetWorkspacesResponse.workspaces = ws\<rparr>, db)))"

definition get_all_workspaces ::
    "GetWorkspacesRequest \<Rightarrow> 'st store
      \<Rightarrow> 'st GetWorkspacesResponse outcome \<times> 'st store" where
  "get_all_workspaces request db =
     (case get_all_workspaces_try request db of
        (r, db') \<Rightarrow> (except_HTTPException ''Error getting workspaces: '' r, db'))"

text \<open>
  \<^verbatim>\<open>DELETE /api/workspace\<close>. On a workspace map,
  \<^verbatim>\<open>request.workspace_name not in workspaces\<close> asks whether the key is missing; on a
  string it is Python's substring test, and \<^verbatim>\<open>del\<close> on a string raises
  \<^verbatim>\<open>TypeError\<close>.
\<close>

definition delete_workspace_try ::
    "DeleteWorkspaceRequest \<Rightarrow> 'st store
      \<Rightarrow> (raised + DeleteWorkspaceResponse) \<times> 'st store" where
  "delete_workspace_try request db =
     (case doc_get db (DeleteWorkspaceRequest.username request) of
        Inl e \<Rightarrow> (Inl (Raise e), db)
      | Inr None \<Rightarrow> (Inl (RaiseHTTP 404 (Detail ''User not found'')), db)
      | Inr (Some user_data) \<Rightarrow>
          (case dict_get user_data ''workspaces'' (VMap Map.empty) of
             VStr s \<Rightarrow>
               if \<not> sublist (DeleteWorkspaceRequest.workspace_name request) s
               then
                 (Inl (RaiseHTTP 404
                    (Detail (''Workspace ''
                       @ quoted (DeleteWorkspaceRequest.workspace_name request)
                       @ '' not found''))), db)
               else (Inl (Raise TypeError), db)
           | VMap ws \<Rightarrow>
               if DeleteWorkspaceRequest.workspace_name request \<notin> dom ws
               then
                 (Inl (RaiseHTTP 404
                    (Detail (''Workspace ''
                       @ quoted (DeleteWorkspaceRequest.workspace_name request)
                       @ '' not found''))), db)
               else
                 (case doc_update db (DeleteWorkspaceRequest.username request) ''workspaces''
                         (VMap (ws(DeleteWorkspaceRequest.workspace_name request
                                  := None))) of
                    Inl e \<Rightarrow> (Inl (Raise e), db)
                  | Inr db' \<Rightarrow>
                      (Inr \<lparr>DeleteWorkspaceResponse.status = ''success'',
                            DeleteWorkspaceResponse.message =
                              ''Workspace ''
                              @ quoted (DeleteWorkspaceRequest.workspace_name request)
                              @ '' deleted successfully''\<rparr>, db'))))"

definition delete_workspace ::
    "DeleteWorkspaceRequest \<Rightarrow> 'st store
      \<Rightarrow> DeleteWorkspaceResponse outcome \<times> 'st store" where
  "delete_workspace request db =
     (case delete_workspace_try request db of
        (r, db') \<Rightarrow> (except_HTTPException ''Error deleting workspace: '' r, db'))"

section \<open>The routes\<close>

text \<open>\<^verbatim>\<open>GET /\<close> returns a fixed dictionary and never touches the store.\<close>

definition read_root :: "(string \<times> string) list" where
  "read_root = [(''status'', ''online''), (''message'', ''IntelliOS API is running'')]"

text \<open>The six routes that \<^verbatim>\<open>app\<close> registers, and a request to each.\<close>

datatype 'st request =
    GET_root
  | POST_login LoginRequest
  | POST_signup SignupRequest
  | POST_workspace "'st CreateWorkspaceRequest"
  | POST_workspaces GetWorkspacesRequest
  | DELETE_workspace DeleteWorkspaceRequest

datatype 'st response =
    RootBody "(string \<times> string) list"
  | LoginBody "'st LoginResponse"
  | SignupBody SignupResponse
  | CreateWorkspaceBody CreateWorkspaceResponse
  | GetWorkspacesBody "'st GetWorkspacesResponse"
  | DeleteWorkspaceBody DeleteWorkspaceResponse

fun app :: "'st request \<Rightarrow> 'st store \<Rightarrow> 'st response outcome \<times> 'st store" where
  "app GET_root db = (Response (RootBody read_root), db)"
| "app (POST_login r) db =
     (case login r db of (out, db') \<Rightarrow> (map_outcome LoginBody out, db'))"
| "app (POST_signup r) db =
     (case signup r db of (out, db') \<Rightarrow> (map_outcome SignupBody out, db'))"
| "app (POST_workspace r) db =
     (case create_update_workspace r db of
        (out, db') \<Rightarrow> (map_outcome CreateWorkspaceBody out, db'))"
| "app (POST_workspaces r) db =
     (case get_all_workspaces r db of
        (out, db') \<Rightarrow> (map_outcome GetWorkspacesBody out, db'))"
| "app (DELETE_workspace r) db =
     (case delete_workspace r db of
        (out, db') \<Rightarrow> (map_outcome DeleteWorkspaceBody out, db'))"

text \<open>Serving a sequence of requests one after the other; the result is the last store.\<close>

fun serve :: "'st request list \<Rightarrow> 'st store \<Rightarrow> 'st store" where
  "serve [] db = db"
| "serve (r # rs) db = serve rs (snd (app r db))"

section \<open>Account documents\<close>

text \<open>
  The spec's data model: an account is a document whose \<open>username\<close> is its key, whose
  \<open>password\<close>, \<open>name\<close> and \<open>email\<close> are strings and whose \<open>workspaces\<close> is a map
  from workspace names to states. This is the shape of the dictionary that signup writes.
  A stored account has an id and a workspace map that the store accepted.
\<close>

definition account :: "'st store \<Rightarrow> string \<Rightarrow> 'st document \<Rightarrow> bool" where
  "account db u d =
     (accepts_id db u
      \<and> d ''username'' = Some (VStr u)
      \<and> (\<exists>p. d ''password'' = Some (VStr p))
      \<and> (\<exists>n. d ''name'' = Some (VStr n))
      \<and> (\<exists>e. d ''email'' = Some (VStr e))
      \<and> (\<exists>ws. d ''workspaces'' = Some (VMap ws) \<and> accepts_value db (VMap ws)))"

definition accounts :: "'st store \<Rightarrow> bool" where
  "accounts db = (\<forall>u d. documents db u = Some d \<longrightarrow> account db u d)"

section \<open>An example store\<close>

text \<open>
  What the Firestore client refuses on its own, before it sends anything, for states read
  from JSON. A document path has an even number of segments, so an id under the
  collection \<^verbatim>\<open>DDNA\<close> must hold an even number of slashes. A key of a map that
  \<^verbatim>\<open>update\<close> walks must not be empty; the walk follows dictionaries inside
  dictionaries and stops at any other value, which is then encoded, and an integer is
  encoded in 64 bits.
\<close>

definition client_accepts_id :: "string \<Rightarrow> bool" where
  "client_accepts_id doc_id = even (count_list doc_id (CHR ''/''))"

definition client_accepts_key :: "string \<Rightarrow> bool" where
  "client_accepts_key k = (k \<noteq> [])"

fun encode_value :: "json \<Rightarrow> bool" where
  "encode_value (JInt i) = (- (2 ^ 63) \<le> i \<and> i < 2 ^ 63)"
| "encode_value (JArray xs) = list_all encode_value xs"
| "encode_value (JObject kvs) = list_all encode_value (map snd kvs)"
| "encode_value v = True"

fun extract_fields :: "json \<Rightarrow> bool" where
  "extract_fields (JObject kvs) =
     (list_all client_accepts_key (map fst kvs) \<and> list_all extract_fields (map snd kvs))"
| "extract_fields v = encode_value v"

text \<open>
  The account of the spec's example scenario, \<^verbatim>\<open>signup(alice, pw1, Alice, a@x.com)\<close>
  and an upsert of workspace \<^verbatim>\<open>proj1\<close> with state \<^verbatim>\<open>{"x": 1}\<close>, followed by
  an upsert of a second workspace \<^verbatim>\<open>proj2\<close> with state \<^verbatim>\<open>{"y": true}\<close>.
\<close>

definition alice_workspaces :: "string \<rightharpoonup> json" where
  "alice_workspaces =
     [''proj1'' \<mapsto> JObject [(''x'', JInt 1)],
      ''proj2'' \<mapsto> JObject [(''y'', JBool True)]]"

definition alice_doc :: "json document" where
  "alice_doc =
     [''username'' \<mapsto> VStr ''alice'',
      ''password'' \<mapsto> VStr ''pw1'',
      ''name'' \<mapsto> VStr ''Alice'',
      ''email'' \<mapsto> VStr ''a@x.com'',
      ''workspaces'' \<mapsto> VMap alice_workspaces]"

definition empty_db :: "json store" where
  "empty_db =
     \<lparr>documents = Map.empty, accepts_id = client_accepts_id,
      accepts_key = client_accepts_key, accepts_state = extract_fields\<rparr>"

definition alice_db :: "json store" where
  "alice_db = empty_db\<lparr>documents := [''alice'' \<mapsto> alice_doc]\<rparr>"

definition alice_requests :: "json request list" where
  "alice_requests =
     [POST_signup \<lparr>SignupRequest.username = ''alice'', SignupRequest.password = ''pw1'',
                   SignupRequest.name = ''Alice'', SignupRequest.email = ''a@x.com''\<rparr>,
      POST_workspace \<lparr>CreateWorkspaceRequest.username = ''alice'',
                      CreateWorkspaceRequest.workspace_name = ''proj1'',
                      CreateWorkspaceRequest.state = JObject [(''x'', JInt 1)]\<rparr>,
      POST_workspace \<lparr>CreateWorkspaceRequest.username = ''alice'',
                      CreateWorkspaceRequest.workspace_name = ''proj2'',
                      CreateWorkspaceRequest.state = JObject [(''y'', JBool True)]\<rparr>]"

text \<open>
  A document that is not an account: its \<open>workspaces\<close> field holds a string. No request
  to the server writes such a document.
\<close>

definition eve_doc :: "json document" where
  "eve_doc = [''username'' \<mapsto> VStr ''eve'', ''workspaces'' \<mapsto> VStr ''proj1 proj2'']"

definition eve_db :: "json store" where
  "eve_db = empty_db\<lparr>documents := [''eve'' \<mapsto> eve_doc]\<rparr>"

section \<open>What each handler does, case by case\<close>

text \<open>
  One lemma per path through a handler: its outcome and the store it leaves. The store
  is written on three paths only (a new signup, an upsert and a delete that succeed).
\<close>

lemma login_refused:
  "doc_get db (LoginRequest.username request) = Inl e \<Longrightarrow>
   login request db = (HTTPException 500 (DetailStr ''Login failed: '' e), db)"
  by (simp add: login_def login_try_def)

lemma login_unknown:
  "doc_get db (LoginRequest.username request) = Inr None \<Longrightarrow>
   login request db =
     (Response \<lparr>LoginResponse.status = ''error'',
                LoginResponse.message = ''Username not found'',
                LoginResponse.workspaces = None\<rparr>, db)"
  by (simp add: login_def login_try_def)

lemma login_wrong_password:
  "doc_get db (LoginRequest.username request) = Inr (Some user_data) \<Longrightarrow>
   user_data ''password'' \<noteq> Some (VStr (LoginRequest.password request)) \<Longrightarrow>
   login request db =
     (Response \<lparr>LoginResponse.status = ''error'',
                LoginResponse.message = ''Incorrect Password'',
                LoginResponse.workspaces = None\<rparr>, db)"
  by (simp add: login_def login_try_def)

lemma login_success:
  "doc_get db (LoginRequest.username request) = Inr (Some user_data) \<Longrightarrow>
   user_data ''password'' = Some (VStr (LoginRequest.password request)) \<Longrightarrow>
   dict_get user_data ''workspaces'' (VMap Map.empty) = VMap ws \<Longrightarrow>
   login request db =
     (Response \<lparr>LoginResponse.status = ''success'',
                LoginResponse.message = ''Successful'',
                LoginResponse.workspaces = Some ws\<rparr>, db)"
  by (simp add: login_def login_try_def)

lemma login_store: "snd (login request db) = db"
  by (simp add: login_def login_try_def split: option.split sum.split)

lemma signup_refused:
  "doc_get db (SignupRequest.username request) = Inl e \<Longrightarrow>
   signup request db = (HTTPException 500 (DetailStr ''Signup failed: '' e), db)"
  by (simp add: signup_def signup_try_def)

lemma signup_existing:
  "doc_get db (SignupRequest.username request) = Inr (Some user_data) \<Longrightarrow>
   signup request db =
     (Response \<lparr>SignupResponse.status = ''error'',
                SignupResponse.message = ''Username already exists''\<rparr>, db)"
  by (simp add: signup_def signup_try_def)

lemma accepts_signup_document:
  "accepts_document db
     [''username'' \<mapsto> VStr u, ''password'' \<mapsto> VStr p, ''name'' \<mapsto> VStr n,
      ''email'' \<mapsto> VStr e, ''workspaces'' \<mapsto> VMap Map.empty]"
  by (auto simp: accepts_document_def accepts_value.simps split: if_splits)

lemma signup_new:
  assumes "doc_get db (SignupRequest.username request) = Inr None"
  shows "signup request db =
     (Response \<lparr>SignupResponse.status = ''success'',
                SignupResponse.message = ''Account created successfully''\<rparr>,
      db\<lparr>documents := (documents db)(SignupRequest.username request \<mapsto>
           [''username'' \<mapsto> VStr (SignupRequest.username request),
            ''password'' \<mapsto> VStr (SignupRequest.password request),
            ''name'' \<mapsto> VStr (SignupRequest.name request),
            ''email'' \<mapsto> VStr (SignupRequest.email request),
            ''workspaces'' \<mapsto> VMap Map.empty])\<rparr>)"
proof -
  from assms have "accepts_id db (SignupRequest.username request)"
    by (simp add: doc_get_def split: if_splits)
  with assms show ?thesis
    by (simp add: signup_def signup_try_def doc_set_def accepts_signup_document)
qed

lemma create_update_workspace_refused:
  "doc_get db (CreateWorkspaceRequest.username request) = Inl e \<Longrightarrow>
   create_update_workspace request db =
     (HTTPException 500 (DetailStr ''Error creating workspace: '' e), db)"
  by (simp add: create_update_workspace_def create_update_workspace_try_def)

lemma create_update_workspace_unknown:
  "doc_get db (CreateWorkspaceRequest.username request) = Inr None \<Longrightarrow>
   create_update_workspace request db = (HTTPException 404 (Detail ''User not found''), db)"
  by (simp add: create_update_workspace_def create_update_workspace_try_def)

lemma create_update_workspace_ok:
  assumes "doc_get db (CreateWorkspaceRequest.username request) = Inr (Some user_data)"
    and "dict_get user_data ''workspaces'' (VMap Map.empty) = VMap ws"
    and "accepts_value db (VMap (ws(CreateWorkspaceRequest.workspace_name request
                        \<mapsto> CreateWorkspaceRequest.state request)))"
  shows "create_update_workspace request db =
     (Response \<lparr>CreateWorkspaceResponse.status = ''success'',
                CreateWorkspaceResponse.message =
                  ''Workspace '' @ quoted (CreateWorkspaceRequest.workspace_name request)
                  @ '' created/updated successfully''\<rparr>,
      db\<lparr>documents := (documents db)(CreateWorkspaceRequest.username request \<mapsto>
           user_data(''workspaces'' \<mapsto>
             VMap (ws(CreateWorkspaceRequest.workspace_name request
                        \<mapsto> CreateWorkspaceRequest.state request))))\<rparr>)"
proof -
  from assms(1) have "accepts_id db (CreateWorkspaceRequest.username request)"
    and "documents db (CreateWorkspaceRequest.username request) = Some user_data"
    by (simp_all add: doc_get_def split: if_splits)
  with assms show ?thesis
    by (simp add: create_update_workspace_def create_update_workspace_try_def
        doc_update_def)
qed

lemma create_update_workspace_rejected:
  assumes "doc_get db (CreateWorkspaceRequest.username request) = Inr (Some user_data)"
    and "dict_get user_data ''workspaces'' (VMap Map.empty) = VMap ws"
    and "\<not> accepts_value db (VMap (ws(CreateWorkspaceRequest.workspace_name request
                        \<mapsto> CreateWorkspaceRequest.state request)))"
  shows "create_update_workspace request db =
     (HTTPException 500 (DetailStr ''Error creating workspace: '' ValueError), db)"
  using assms
  by (simp add: create_update_workspace_def create_update_workspace_try_def
      doc_update_def)

lemma get_all_workspaces_refused:
  "doc_get db (GetWorkspacesRequest.username request) = Inl e \<Longrightarrow>
   get_all_workspaces request db =
     (HTTPException 500 (DetailStr ''Error getting workspaces: '' e), db)"
  by (simp add: get_all_workspaces_def get_all_workspaces_try_def)

lemma get_all_workspaces_unknown:
  "doc_get db (GetWorkspacesRequest.username request) = Inr None \<Longrightarrow>
   get_all_workspaces request db = (HTTPException 404 (Detail ''User not found''), db)"
  by (simp add: get_all_workspaces_def get_all_workspaces_try_def)

lemma get_all_workspaces_ok:
  "doc_get db (GetWorkspacesRequest.username request) = Inr (Some user_data) \<Longrightarrow>
   dict_get user_data ''workspaces'' (VMap Map.empty) = VMap ws \<Longrightarrow>
   get_all_workspaces request db =
     (Response \<lparr>GetWorkspacesResponse.status = ''success'',
                GetWorkspacesResponse.workspaces = ws\<rparr>, db)"
  by (simp add: get_all_workspaces_def get_all_workspaces_try_def)

lemma get_all_workspaces_store: "snd (get_all_workspaces request db) = db"
  by (simp add: get_all_workspaces_def get_all_workspaces_try_def
      split: option.split sum.split)

lemma delete_workspace_refused:
  "doc_get db (DeleteWorkspaceRequest.username request) = Inl e \<Longrightarrow>
   delete_workspace request db =
     (HTTPException 500 (DetailStr ''Error deleting workspace: '' e), db)"
  by (simp add: delete_workspace_def delete_workspace_try_def)

lemma delete_workspace_unknown:
  "doc_get db (DeleteWorkspaceRequest.username request) = Inr None \<Longrightarrow>
   delete_workspace request db = (HTTPException 404 (Detail ''User not found''), db)"
  by (simp add: delete_workspace_def delete_workspace_try_def)

lemma delete_workspace_missing:
  "doc_get db (DeleteWorkspaceRequest.username request) = Inr (Some user_data) \<Longrightarrow>
   dict_get user_data ''workspaces'' (VMap Map.empty) = VMap ws \<Longrightarrow>
   DeleteWorkspaceRequest.workspace_name request \<notin> dom ws \<Longrightarrow>
   delete_workspace request db =
     (HTTPException 404
        (Detail (''Workspace '' @ quoted (DeleteWorkspaceRequest.workspace_name request)
                 @ '' not found'')), db)"
  by (simp add: delete_workspace_def delete_workspace_try_def)

lemma delete_workspace_ok:
  assumes "doc_get db (DeleteWorkspaceRequest.username request) = Inr (Some user_data)"
    and "dict_get user_data ''workspaces'' (VMap Map.empty) = VMap ws"
    and "DeleteWorkspaceRequest.workspace_name request \<in> dom ws"
    and "accepts_value db (VMap (ws(DeleteWorkspaceRequest.workspace_name request := None)))"
  shows "delete_workspace request db =
     (Response \<lparr>DeleteWorkspaceResponse.status = ''success'',
                DeleteWorkspaceResponse.message =
                  ''Workspace '' @ quoted (DeleteWorkspaceRequest.workspace_name request)
                  @ '' deleted successfully''\<rparr>,
      db\<lparr>documents := (documents db)(DeleteWorkspaceRequest.username request \<mapsto>
           user_data(''workspaces'' \<mapsto>
             VMap (ws(DeleteWorkspaceRequest.workspace_name request := None))))\<rparr>)"
proof -
  from assms(1) have "accepts_id db (DeleteWorkspaceRequest.username request)"
    and "documents db (DeleteWorkspaceRequest.username request) = Some user_data"
    by (simp_all add: doc_get_def split: if_splits)
  with assms show ?thesis
    by (simp add: delete_workspace_def delete_workspace_try_def
        doc_update_def)
qed

text \<open>What the store accepts does not depend on the documents it holds.\<close>

lemma accepts_value_documents [simp]:
  "accepts_value (db\<lparr>documents := docs\<rparr>) v = accepts_value db v"
  by (cases v) (simp_all add: accepts_value.simps)

lemma accepts_value_empty [simp]: "accepts_value db (VMap Map.empty)"
  by (simp add: accepts_value.simps)

lemma accepts_value_upsert:
  "accepts_value db (VMap ws) \<Longrightarrow> accepts_key db W \<Longrightarrow> accepts_state db S \<Longrightarrow>
   accepts_value db (VMap (ws(W \<mapsto> S)))"
  by (auto simp: accepts_value.simps split: if_splits)

lemma accepts_value_delete:
  "accepts_value db (VMap ws) \<Longrightarrow> accepts_value db (VMap (ws(W := None)))"
  by (auto simp: accepts_value.simps split: if_splits)

lemma accepts_value_entry:
  "accepts_value db (VMap (ws(W \<mapsto> S))) \<Longrightarrow> accepts_key db W \<and> accepts_state db S"
  by (auto simp: accepts_value.simps dest: spec [of _ W])

lemma doc_get_documents:
  "doc_get (db\<lparr>documents := (documents db)(u \<mapsto> d)\<rparr>) u' =
     (if accepts_id db u' then Inr (if u' = u then Some d else documents db u')
      else Inl ValueError)"
  by (simp add: doc_get_def)

lemma doc_get_exists:
  "doc_get db u = Inr (Some d) \<Longrightarrow> accepts_id db u \<and> documents db u = Some d"
  by (simp add: doc_get_def split: if_splits)

lemma doc_get_absent:
  "doc_get db u = Inr None \<Longrightarrow> accepts_id db u \<and> documents db u = None"
  by (simp add: doc_get_def split: if_splits)

text \<open>The example store, read through the store's own lookup.\<close>

lemma alice_db_alice: "doc_get alice_db ''alice'' = Inr (Some alice_doc)"
  by (simp add: doc_get_def alice_db_def empty_db_def client_accepts_id_def)

lemma alice_db_bob: "doc_get alice_db ''bob'' = Inr None"
  by (simp add: doc_get_def alice_db_def empty_db_def client_accepts_id_def)

lemma alice_db_slash:
  "documents alice_db ''a/b'' = None \<and> doc_get alice_db ''a/b'' = Inl ValueError"
  by (simp add: doc_get_def alice_db_def empty_db_def client_accepts_id_def)

lemma alice_doc_workspaces:
  "dict_get alice_doc ''workspaces'' (VMap Map.empty) = VMap alice_workspaces"
  by (simp add: dict_get_def alice_doc_def)

lemma alice_workspaces_accepted: "accepts_value alice_db (VMap alice_workspaces)"
  by (auto simp: accepts_value.simps alice_db_def empty_db_def alice_workspaces_def
      client_accepts_key_def split: if_splits)

lemma alice_db_keys:
  "accepts_key alice_db k = (k \<noteq> []) \<and> accepts_state alice_db s = extract_fields s"
  by (simp add: alice_db_def empty_db_def client_accepts_key_def)

text \<open>The example store is what the three requests build from the empty store.\<close>

lemma empty_db_fields:
  "documents empty_db = Map.empty" "accepts_id empty_db = client_accepts_id"
  "accepts_key empty_db = client_accepts_key" "accepts_state empty_db = extract_fields"
  by (simp_all add: empty_db_def)

lemma alice_db_served: "serve alice_requests empty_db = alice_db"
proof -
  let ?signup = "\<lparr>SignupRequest.username = ''alice'', SignupRequest.password = ''pw1'',
                  SignupRequest.name = ''Alice'', SignupRequest.email = ''a@x.com''\<rparr>"
  let ?up1 = "\<lparr>CreateWorkspaceRequest.username = ''alice'',
               CreateWorkspaceRequest.workspace_name = ''proj1'',
               CreateWorkspaceRequest.state = JObject [(''x'', JInt 1)]\<rparr>"
  let ?up2 = "\<lparr>CreateWorkspaceRequest.username = ''alice'',
               CreateWorkspaceRequest.workspace_name = ''proj2'',
               CreateWorkspaceRequest.state = JObject [(''y'', JBool True)]\<rparr>"
  let ?d0 = "[''username'' \<mapsto> VStr ''alice'', ''password'' \<mapsto> VStr ''pw1'',
              ''name'' \<mapsto> VStr ''Alice'', ''email'' \<mapsto> VStr ''a@x.com'',
              ''workspaces'' \<mapsto> VMap Map.empty] :: json document"
  let ?w1 = "[''proj1'' \<mapsto> JObject [(''x'', JInt 1)]] :: string \<rightharpoonup> json"
  let ?d1 = "?d0(''workspaces'' \<mapsto> VMap ?w1)"
  let ?d2 = "?d1(''workspaces'' \<mapsto> VMap alice_workspaces)"
  let ?db0 = "empty_db\<lparr>documents := [''alice'' \<mapsto> ?d0]\<rparr>"
  let ?db1 = "empty_db\<lparr>documents := [''alice'' \<mapsto> ?d1]\<rparr>"
  let ?db2 = "empty_db\<lparr>documents := [''alice'' \<mapsto> ?d2]\<rparr>"
  have id: "client_accepts_id ''alice''"
    by (simp add: client_accepts_id_def)
  have "doc_get empty_db (SignupRequest.username ?signup) = Inr None"
    using id by (simp add: doc_get_def empty_db_fields)
  from signup_new [OF this] have s0: "snd (signup ?signup empty_db) = ?db0"
    by (simp add: empty_db_fields)
  have g0: "doc_get ?db0 (CreateWorkspaceRequest.username ?up1) = Inr (Some ?d0)"
    using id by (simp add: doc_get_def empty_db_fields)
  have a1: "accepts_value ?db0 (VMap (Map.empty(CreateWorkspaceRequest.workspace_name ?up1
      \<mapsto> CreateWorkspaceRequest.state ?up1)))"
    by (simp add: accepts_value.simps empty_db_fields client_accepts_key_def)
  have "dict_get ?d0 ''workspaces'' (VMap Map.empty) = VMap Map.empty"
    by (simp add: dict_get_def)
  from create_update_workspace_ok [OF g0 this a1]
  have s1: "snd (create_update_workspace ?up1 ?db0) = ?db1"
    by simp
  have g1: "doc_get ?db1 (CreateWorkspaceRequest.username ?up2) = Inr (Some ?d1)"
    using id by (simp add: doc_get_def empty_db_fields)
  have a2: "accepts_value ?db1 (VMap (?w1(CreateWorkspaceRequest.workspace_name ?up2
      \<mapsto> CreateWorkspaceRequest.state ?up2)))"
    by (simp add: accepts_value.simps empty_db_fields client_accepts_key_def)
  have "dict_get ?d1 ''workspaces'' (VMap Map.empty) = VMap ?w1"
    by (simp add: dict_get_def)
  from create_update_workspace_ok [OF g1 this a2]
  have s2: "snd (create_update_workspace ?up2 ?db1) = ?db2"
    by (simp add: alice_workspaces_def)
  have "?d2 = alice_doc"
    by (simp add: alice_doc_def)
  then have "?db2 = alice_db"
    by (simp add: alice_db_def)
  with s0 s1 s2 show ?thesis
    by (simp add: alice_requests_def split_beta)
qed

lemma eve_db_eve: "doc_get eve_db ''eve'' = Inr (Some eve_doc)"
  by (simp add: doc_get_def eve_db_def empty_db_def client_accepts_id_def)

lemma eve_doc_workspaces:
  "dict_get eve_doc ''workspaces'' (VMap Map.empty) = VStr ''proj1 proj2''"
  by (simp add: dict_get_def eve_doc_def)

section \<open>The store a handler leaves\<close>

lemma dict_get_workspaces_upd:
  "dict_get (user_data(''workspaces'' \<mapsto> VMap m)) ''workspaces'' (VMap Map.empty) = VMap m"
  by (simp add: dict_get_def)

text \<open>The store a handler leaves: untouched, or one document written.\<close>

lemma signup_store:
  "snd (signup request db) = db
   \<or> (accepts_id db (SignupRequest.username request)
      \<and> documents db (SignupRequest.username request) = None
      \<and> (\<exists>d. snd (signup request db) =
            db\<lparr>documents := (documents db)(SignupRequest.username request \<mapsto> d)\<rparr>))"
proof (cases "doc_get db (SignupRequest.username request)")
  case (Inl e)
  then show ?thesis by (simp add: signup_refused)
next
  case (Inr snapshot)
  then show ?thesis
    by (cases snapshot) (auto simp: signup_new signup_existing dest: doc_get_absent)
qed

lemma create_update_workspace_store:
  "snd (create_update_workspace request db) = db
   \<or> (\<exists>d m. accepts_id db (CreateWorkspaceRequest.username request)
        \<and> documents db (CreateWorkspaceRequest.username request) = Some d
        \<and> accepts_value db (VMap m)
        \<and> snd (create_update_workspace request db) =
            db\<lparr>documents := (documents db)(CreateWorkspaceRequest.username request \<mapsto>
                  d(''workspaces'' \<mapsto> VMap m))\<rparr>)"
  by (auto simp: create_update_workspace_def create_update_workspace_try_def
      doc_get_def doc_update_def
      split: option.split sum.split fsvalue.split if_splits)

lemma delete_workspace_store:
  "snd (delete_workspace request db) = db
   \<or> (\<exists>d m. accepts_id db (DeleteWorkspaceRequest.username request)
        \<and> documents db (DeleteWorkspaceRequest.username request) = Some d
        \<and> accepts_value db (VMap m)
        \<and> snd (delete_workspace request db) =
            db\<lparr>documents := (documents db)(DeleteWorkspaceRequest.username request \<mapsto>
                  d(''workspaces'' \<mapsto> VMap m))\<rparr>)"
  by (auto simp: delete_workspace_def delete_workspace_try_def
      doc_get_def doc_update_def
      split: option.split sum.split fsvalue.split if_splits)

text \<open>No request removes a document.\<close>

lemma app_keeps_documents:
  assumes "doc_get db u = Inr (Some d)"
  shows "\<exists>d'. doc_get (snd (app r db)) u = Inr (Some d')"
proof (cases r)
  case GET_root
  with assms show ?thesis by simp
next
  case (POST_login x)
  with assms show ?thesis using login_store [of x db] by (simp add: split_beta)
next
  case (POST_signup x)
  with assms show ?thesis using signup_store [of x db]
    by (auto simp: split_beta doc_get_def split: if_splits)
next
  case (POST_workspace x)
  with assms show ?thesis using create_update_workspace_store [of x db]
    by (auto simp: split_beta doc_get_def split: if_splits)
next
  case (POST_workspaces x)
  with assms show ?thesis using get_all_workspaces_store [of x db] by (simp add: split_beta)
next
  case (DELETE_workspace x)
  with assms show ?thesis using delete_workspace_store [of x db]
    by (auto simp: split_beta doc_get_def split: if_splits)
qed

lemma serve_keeps_documents:
  "doc_get db u = Inr (Some d) \<Longrightarrow> \<exists>d'. doc_get (serve rs db) u = Inr (Some d')"
proof (induction rs arbitrary: db d)
  case Nil
  then show ?case by simp
next
  case (Cons r rs)
  from app_keeps_documents [OF Cons.prems]
  obtain d1 where "doc_get (snd (app r db)) u = Inr (Some d1)" ..
  from Cons.IH [OF this] show ?case by simp
qed

text \<open>
  A document that exists before an upsert or a delete exists after it, with every field
  but \<open>workspaces\<close> as it was, and no other document is written.
\<close>

lemma upsert_keeps_fields:
  assumes "doc_get db u = Inr (Some d)"
  shows "\<exists>d'. doc_get (snd (create_update_workspace request db)) u = Inr (Some d')
           \<and> (\<forall>f. f \<noteq> ''workspaces'' \<longrightarrow> d' f = d f)"
  using create_update_workspace_store [of request db] assms
  by (auto simp: doc_get_def split: if_splits)

lemma delete_keeps_fields:
  assumes "doc_get db u = Inr (Some d)"
  shows "\<exists>d'. doc_get (snd (delete_workspace request db)) u = Inr (Some d')
           \<and> (\<forall>f. f \<noteq> ''workspaces'' \<longrightarrow> d' f = d f)"
  using delete_workspace_store [of request db] assms
  by (auto simp: doc_get_def split: if_splits)

lemma upsert_keeps_others:
  "u' \<noteq> CreateWorkspaceRequest.username request \<Longrightarrow>
   doc_get (snd (create_update_workspace request db)) u' = doc_get db u'"
  using create_update_workspace_store [of request db]
  by (auto simp: doc_get_def)

lemma delete_keeps_others:
  "u' \<noteq> DeleteWorkspaceRequest.username request \<Longrightarrow>
   doc_get (snd (delete_workspace request db)) u' = doc_get db u'"
  using delete_workspace_store [of request db]
  by (auto simp: doc_get_def)

text \<open>An error outcome of a writing handler comes from a path without a write.\<close>

lemma signup_error_store:
  "fst (signup request db) = Response body \<Longrightarrow> SignupResponse.status body = ''error'' \<Longrightarrow>
   snd (signup request db) = db"
  using signup_store [of request db] by (auto simp: signup_new doc_get_def)

lemma create_update_workspace_failure_store:
  "http_status (fst (create_update_workspace request db)) \<noteq> 200 \<Longrightarrow>
   snd (create_update_workspace request db) = db"
  by (auto simp: create_update_workspace_def create_update_workspace_try_def
      doc_update_def
      split: option.splits sum.splits fsvalue.splits if_splits)

lemma delete_workspace_failure_store:
  "http_status (fst (delete_workspace request db)) \<noteq> 200 \<Longrightarrow>
   snd (delete_workspace request db) = db"
  by (auto simp: delete_workspace_def delete_workspace_try_def
      doc_update_def
      split: option.splits sum.splits fsvalue.splits if_splits)

lemma signup_failure_store:
  "http_status (fst (signup request db)) \<noteq> 200 \<Longrightarrow> snd (signup request db) = db"
  using signup_store [of request db] by (auto simp: signup_new doc_get_def)

section \<open>Every handler keeps the documents accounts\<close>

text \<open>
  Signup writes an account, and an upsert or a delete replaces the \<open>workspaces\<close> field
  of an account by a map that the store accepted, so a store that starts without
  documents only ever holds accounts. For an account the lookup
  \<^verbatim>\<open>user_data.get("workspaces", {})\<close> of the handlers returns a map the store accepts.
\<close>

lemma account_documents [simp]:
  "account (db\<lparr>documents := docs\<rparr>) u d = account db u d"
  by (simp add: account_def)

lemma account_workspaces_upd:
  "account db u d \<Longrightarrow> accepts_value db (VMap m) \<Longrightarrow>
   account db u (d(''workspaces'' \<mapsto> VMap m))"
  by (simp add: account_def)

lemma accounts_workspaces_upd:
  "accounts db \<Longrightarrow> documents db u = Some d \<Longrightarrow> accepts_value db (VMap m) \<Longrightarrow>
   accounts (db\<lparr>documents := (documents db)(u \<mapsto> d(''workspaces'' \<mapsto> VMap m))\<rparr>)"
  by (auto simp: accounts_def account_workspaces_upd
      split: if_splits)

lemma app_accounts:
  assumes "accounts db"
  shows "accounts (snd (app r db))"
proof (cases r)
  case GET_root
  with assms show ?thesis by simp
next
  case (POST_login x)
  with assms show ?thesis using login_store [of x db] by (simp add: split_beta)
next
  case (POST_signup x)
  show ?thesis
  proof (cases "doc_get db (SignupRequest.username x) = Inr None")
    case True
    from doc_get_absent [OF True] signup_new [OF True] assms POST_signup show ?thesis
      by (auto simp: accounts_def account_def split: if_splits)
  next
    case False
    with signup_store [of x db] assms POST_signup show ?thesis
      by (auto simp: split_beta doc_get_def)
  qed
next
  case (POST_workspace x)
  with assms show ?thesis using create_update_workspace_store [of x db]
    by (auto simp: split_beta accounts_workspaces_upd)
next
  case (POST_workspaces x)
  with assms show ?thesis using get_all_workspaces_store [of x db] by (simp add: split_beta)
next
  case (DELETE_workspace x)
  with assms show ?thesis using delete_workspace_store [of x db]
    by (auto simp: split_beta accounts_workspaces_upd)
qed

lemma serve_accounts: "accounts db \<Longrightarrow> accounts (serve rs db)"
  by (induction rs arbitrary: db) (simp_all add: app_accounts)

lemma account_workspaces:
  "account db u d \<Longrightarrow>
   \<exists>ws. dict_get d ''workspaces'' (VMap Map.empty) = VMap ws \<and> accepts_value db (VMap ws)"
  by (auto simp: account_def dict_get_def)

section \<open>Signup followed by login\<close>

text \<open>
  Claim C1, as amended. For every username that the store accepts as a document id and
  that has no document, signup returns status \<open>success\<close>, and a login with the same
  username and password on the store that signup leaves returns status \<open>success\<close> with
  an empty workspace map. The claim as written speaks of every username without a
  document; for an id that the client refuses, such as \<^verbatim>\<open>a/b\<close>, the lookup raises
  and signup answers HTTP 500, which the counterexample shows on the example store.
\<close>

theorem signup_then_login:
  assumes "doc_get db (SignupRequest.username request) = Inr None"
  shows "fst (signup request db) =
           Response \<lparr>SignupResponse.status = ''success'',
                      SignupResponse.message = ''Account created successfully''\<rparr>
       \<and> fst (login \<lparr>LoginRequest.username = SignupRequest.username request,
                       LoginRequest.password = SignupRequest.password request\<rparr>
                 (snd (signup request db))) =
           Response \<lparr>LoginResponse.status = ''success'',
                      LoginResponse.message = ''Successful'',
                      LoginResponse.workspaces = Some Map.empty\<rparr>"
proof -
  let ?doc = "[''username'' \<mapsto> VStr (SignupRequest.username request),
               ''password'' \<mapsto> VStr (SignupRequest.password request),
               ''name'' \<mapsto> VStr (SignupRequest.name request),
               ''email'' \<mapsto> VStr (SignupRequest.email request),
               ''workspaces'' \<mapsto> VMap Map.empty] :: 'a document"
  let ?db = "db\<lparr>documents := (documents db)(SignupRequest.username request \<mapsto> ?doc)\<rparr>"
  let ?login = "\<lparr>LoginRequest.username = SignupRequest.username request,
                  LoginRequest.password = SignupRequest.password request\<rparr>"
  have s: "signup request db =
      (Response \<lparr>SignupResponse.status = ''success'',
                 SignupResponse.message = ''Account created successfully''\<rparr>, ?db)"
    using assms by (rule signup_new)
  from doc_get_absent [OF assms]
  have "doc_get ?db (LoginRequest.username ?login) = Inr (Some ?doc)"
    by (simp add: doc_get_def)
  moreover have "?doc ''password'' = Some (VStr (LoginRequest.password ?login))"
    by simp
  moreover have "dict_get ?doc ''workspaces'' (VMap Map.empty) = VMap Map.empty"
    by (simp add: dict_get_def)
  ultimately have "login ?login ?db =
      (Response \<lparr>LoginResponse.status = ''success'',
                 LoginResponse.message = ''Successful'',
                 LoginResponse.workspaces = Some Map.empty\<rparr>, ?db)"
    by (rule login_success)
  with s show ?thesis by simp
qed

theorem signup_then_login_witness:
  "fst (signup \<lparr>SignupRequest.username = ''bob'', SignupRequest.password = ''pw2'',
                 SignupRequest.name = ''Bob'', SignupRequest.email = ''b@x.com''\<rparr> alice_db) =
     Response \<lparr>SignupResponse.status = ''success'',
                SignupResponse.message = ''Account created successfully''\<rparr>
   \<and> fst (login \<lparr>LoginRequest.username = ''bob'', LoginRequest.password = ''pw2''\<rparr>
           (snd (signup \<lparr>SignupRequest.username = ''bob'', SignupRequest.password = ''pw2'',
                   SignupRequest.name = ''Bob'', SignupRequest.email = ''b@x.com''\<rparr> alice_db))) =
     Response \<lparr>LoginResponse.status = ''success'',
                LoginResponse.message = ''Successful'',
                LoginResponse.workspaces = Some Map.empty\<rparr>"
  using signup_then_login [of alice_db
      "\<lparr>SignupRequest.username = ''bob'', SignupRequest.password = ''pw2'',
        SignupRequest.name = ''Bob'', SignupRequest.email = ''b@x.com''\<rparr>"]
  by (simp add: alice_db_bob)

theorem signup_then_login_counterexample:
  "documents alice_db ''a/b'' = None
   \<and> signup \<lparr>SignupRequest.username = ''a/b'', SignupRequest.password = ''pw2'',
              SignupRequest.name = ''Bob'', SignupRequest.email = ''b@x.com''\<rparr> alice_db =
       (HTTPException 500 (DetailStr ''Signup failed: '' ValueError), alice_db)"
  using alice_db_slash
    signup_refused [of alice_db
      "\<lparr>SignupRequest.username = ''a/b'', SignupRequest.password = ''pw2'',
        SignupRequest.name = ''Bob'', SignupRequest.email = ''b@x.com''\<rparr>" ValueError]
  by simp

section \<open>Upsert then list\<close>

text \<open>
  Claim C2, as amended. For an existing user whose workspace map \<open>ws\<close> is one the store
  accepts, a workspace name \<open>W\<close> that the store accepts as a key and states \<open>S\<close> and
  \<open>S2\<close> that it accepts: the upsert of \<open>W\<close> with \<open>S\<close> succeeds and the listing that
  follows returns \<open>ws\<close> with \<open>W\<close> mapped to \<open>S\<close> itself; after a second upsert of
  \<open>W\<close> with \<open>S2\<close> the listing returns \<open>ws\<close> with \<open>W\<close> mapped to \<open>S2\<close>, with
  nothing of \<open>S\<close> left. The state is a value of the type parameter, so no handler can
  look inside it. The claim as written speaks of every name and state; for the empty name
  the write is refused, the upsert answers HTTP 500 and the listing that follows has no
  such entry, which the counterexample shows on the example store.
\<close>

theorem upsert_then_list:
  assumes "doc_get db u = Inr (Some user_data)"
    and "dict_get user_data ''workspaces'' (VMap Map.empty) = VMap ws"
    and "accepts_value db (VMap ws)"
    and "accepts_key db W"
    and "accepts_state db S"
    and "accepts_state db S2"
  shows "fst (create_update_workspace
             \<lparr>CreateWorkspaceRequest.username = u,
              CreateWorkspaceRequest.workspace_name = W,
              CreateWorkspaceRequest.state = S\<rparr> db) =
           Response \<lparr>CreateWorkspaceResponse.status = ''success'',
                      CreateWorkspaceResponse.message =
                        ''Workspace '' @ quoted W @ '' created/updated successfully''\<rparr>
       \<and> fst (get_all_workspaces \<lparr>GetWorkspacesRequest.username = u\<rparr>
               (snd (create_update_workspace
                  \<lparr>CreateWorkspaceRequest.username = u,
                   CreateWorkspaceRequest.workspace_name = W,
                   CreateWorkspaceRequest.state = S\<rparr> db))) =
           Response \<lparr>GetWorkspacesResponse.status = ''success'',
                      GetWorkspacesResponse.workspaces = ws(W \<mapsto> S)\<rparr>
       \<and> fst (get_all_workspaces \<lparr>GetWorkspacesRequest.username = u\<rparr>
               (snd (create_update_workspace
                  \<lparr>CreateWorkspaceRequest.username = u,
                   CreateWorkspaceRequest.workspace_name = W,
                   CreateWorkspaceRequest.state = S2\<rparr>
                  (snd (create_update_workspace
                     \<lparr>CreateWorkspaceRequest.username = u,
                      CreateWorkspaceRequest.workspace_name = W,
                      CreateWorkspaceRequest.state = S\<rparr> db))))) =
           Response \<lparr>GetWorkspacesResponse.status = ''success'',
                      GetWorkspacesResponse.workspaces = ws(W \<mapsto> S2)\<rparr>"
proof -
  let ?r1 = "\<lparr>CreateWorkspaceRequest.username = u,
              CreateWorkspaceRequest.workspace_name = W,
              CreateWorkspaceRequest.state = S\<rparr>"
  let ?r2 = "\<lparr>CreateWorkspaceRequest.username = u,
              CreateWorkspaceRequest.workspace_name = W,
              CreateWorkspaceRequest.state = S2\<rparr>"
  let ?l = "\<lparr>GetWorkspacesRequest.username = u\<rparr>"
  let ?d1 = "user_data(''workspaces'' \<mapsto> VMap (ws(W \<mapsto> S)))"
  let ?db1 = "db\<lparr>documents := (documents db)(u \<mapsto> ?d1)\<rparr>"
  let ?d2 = "?d1(''workspaces'' \<mapsto> VMap ((ws(W \<mapsto> S))(W \<mapsto> S2)))"
  let ?db2 = "?db1\<lparr>documents := (documents ?db1)(u \<mapsto> ?d2)\<rparr>"
  from doc_get_exists [OF assms(1)] have id: "accepts_id db u" ..
  have a1: "accepts_value db (VMap (ws(W \<mapsto> S)))"
    using assms(3,4,5) by (rule accepts_value_upsert)
  have a2: "accepts_value ?db1 (VMap ((ws(W \<mapsto> S))(W \<mapsto> S2)))"
    using accepts_value_upsert [OF a1 assms(4) assms(6)] by simp
  have up1: "create_update_workspace ?r1 db =
      (Response \<lparr>CreateWorkspaceResponse.status = ''success'',
                 CreateWorkspaceResponse.message =
                   ''Workspace '' @ quoted W @ '' created/updated successfully''\<rparr>, ?db1)"
    using create_update_workspace_ok [of db ?r1 user_data ws] assms(1,2) a1
    by simp
  have g1: "doc_get ?db1 u = Inr (Some ?d1)"
    using id by (simp add: doc_get_def)
  have w1: "dict_get ?d1 ''workspaces'' (VMap Map.empty) = VMap (ws(W \<mapsto> S))"
    by (rule dict_get_workspaces_upd)
  have l1: "get_all_workspaces ?l ?db1 =
      (Response \<lparr>GetWorkspacesResponse.status = ''success'',
                 GetWorkspacesResponse.workspaces = ws(W \<mapsto> S)\<rparr>, ?db1)"
    using get_all_workspaces_ok [of ?db1 ?l ?d1 "ws(W \<mapsto> S)"] g1 w1 by simp
  have up2: "snd (create_update_workspace ?r2 ?db1) = ?db2"
    using create_update_workspace_ok [of ?db1 ?r2 ?d1 "ws(W \<mapsto> S)"] g1 w1 a2
    by simp
  have g2: "doc_get ?db2 u = Inr (Some ?d2)"
    using id by (simp add: doc_get_def)
  have w2: "dict_get ?d2 ''workspaces'' (VMap Map.empty) = VMap (ws(W \<mapsto> S2))"
    by (simp add: dict_get_def)
  have l2: "get_all_workspaces ?l ?db2 =
      (Response \<lparr>GetWorkspacesResponse.status = ''success'',
                 GetWorkspacesResponse.workspaces = ws(W \<mapsto> S2)\<rparr>, ?db2)"
    using get_all_workspaces_ok [of ?db2 ?l ?d2 "ws(W \<mapsto> S2)"] g2 w2 by simp
  from up1 have s1: "snd (create_update_workspace ?r1 db) = ?db1" by simp
  show ?thesis
    unfolding s1 up2 using up1 l1 l2 by simp
qed

theorem upsert_then_list_witness:
  "fst (get_all_workspaces \<lparr>GetWorkspacesRequest.username = ''alice''\<rparr>
          (snd (create_update_workspace
             \<lparr>CreateWorkspaceRequest.username = ''alice'',
              CreateWorkspaceRequest.workspace_name = ''proj2'',
              CreateWorkspaceRequest.state = JObject [(''y'', JBool False)]\<rparr> alice_db))) =
     Response \<lparr>GetWorkspacesResponse.status = ''success'',
                GetWorkspacesResponse.workspaces =
                  [''proj1'' \<mapsto> JObject [(''x'', JInt 1)],
                   ''proj2'' \<mapsto> JObject [(''y'', JBool False)]]\<rparr>
   \<and> fst (get_all_workspaces \<lparr>GetWorkspacesRequest.username = ''alice''\<rparr>
          (snd (create_update_workspace
             \<lparr>CreateWorkspaceRequest.username = ''alice'',
              CreateWorkspaceRequest.workspace_name = ''proj2'',
              CreateWorkspaceRequest.state = JObject []\<rparr>
             (snd (create_update_workspace
                \<lparr>CreateWorkspaceRequest.username = ''alice'',
                 CreateWorkspaceRequest.workspace_name = ''proj2'',
                 CreateWorkspaceRequest.state = JObject [(''y'', JBool False)]\<rparr>
                alice_db))))) =
     Response \<lparr>GetWorkspacesResponse.status = ''success'',
                GetWorkspacesResponse.workspaces =
                  [''proj1'' \<mapsto> JObject [(''x'', JInt 1)],
                   ''proj2'' \<mapsto> JObject []]\<rparr>"
proof -
  have k: "accepts_key alice_db ''proj2''"
    by (simp add: alice_db_keys)
  have s1: "accepts_state alice_db (JObject [(''y'', JBool False)])"
    by (simp add: alice_db_keys client_accepts_key_def)
  have s2: "accepts_state alice_db (JObject [])"
    by (simp add: alice_db_keys)
  from upsert_then_list [OF alice_db_alice alice_doc_workspaces alice_workspaces_accepted k s1 s2]
  show ?thesis by (simp add: alice_workspaces_def)
qed

theorem upsert_then_list_counterexample:
  "doc_get alice_db ''alice'' = Inr (Some alice_doc)
   \<and> create_update_workspace
        \<lparr>CreateWorkspaceRequest.username = ''alice'',
         CreateWorkspaceRequest.workspace_name = '''',
         CreateWorkspaceRequest.state = JObject []\<rparr> alice_db =
       (HTTPException 500 (DetailStr ''Error creating workspace: '' ValueError), alice_db)
   \<and> fst (get_all_workspaces \<lparr>GetWorkspacesRequest.username = ''alice''\<rparr>
          (snd (create_update_workspace
             \<lparr>CreateWorkspaceRequest.username = ''alice'',
              CreateWorkspaceRequest.workspace_name = '''',
              CreateWorkspaceRequest.state = JObject []\<rparr> alice_db))) =
       Response \<lparr>GetWorkspacesResponse.status = ''success'',
                  GetWorkspacesResponse.workspaces = alice_workspaces\<rparr>
   \<and> alice_workspaces '''' = None"
proof -
  let ?r = "\<lparr>CreateWorkspaceRequest.username = ''alice'',
             CreateWorkspaceRequest.workspace_name = '''',
             CreateWorkspaceRequest.state = JObject []\<rparr>"
  have "\<not> accepts_key alice_db ''''"
    by (simp add: alice_db_keys)
  then have "\<not> accepts_value alice_db (VMap (alice_workspaces('''' \<mapsto> JObject [])))"
    using accepts_value_entry [of alice_db alice_workspaces "''''" "JObject []"] by blast
  then have up: "create_update_workspace ?r alice_db =
      (HTTPException 500 (DetailStr ''Error creating workspace: '' ValueError), alice_db)"
    using create_update_workspace_rejected [of alice_db ?r alice_doc alice_workspaces]
      alice_db_alice alice_doc_workspaces
    by simp
  have "get_all_workspaces \<lparr>GetWorkspacesRequest.username = ''alice''\<rparr> alice_db =
      (Response \<lparr>GetWorkspacesResponse.status = ''success'',
                 GetWorkspacesResponse.workspaces = alice_workspaces\<rparr>, alice_db)"
    using get_all_workspaces_ok [of alice_db "\<lparr>GetWorkspacesRequest.username = ''alice''\<rparr>"
        alice_doc alice_workspaces] alice_db_alice alice_doc_workspaces
    by simp
  moreover have "alice_workspaces '''' = None"
    by (simp add: alice_workspaces_def)
  ultimately show ?thesis
    using up alice_db_alice by simp
qed

section \<open>Signup with a username that exists\<close>

text \<open>
  Claim C3. For every username that has a document in the store, signup returns HTTP 200
  with status \<open>error\<close> and message \<open>Username already exists\<close>, and leaves the whole
  store, hence every field of the existing document, as it was.
\<close>

theorem signup_existing_username:
  assumes "doc_get db (SignupRequest.username request) = Inr (Some user_data)"
  shows "signup request db =
           (Response \<lparr>SignupResponse.status = ''error'',
                       SignupResponse.message = ''Username already exists''\<rparr>, db)
       \<and> http_status (fst (signup request db)) = 200
       \<and> doc_get (snd (signup request db)) (SignupRequest.username request)
           = Inr (Some user_data)"
  using assms by (simp add: signup_existing)

theorem signup_existing_username_witness:
  "signup \<lparr>SignupRequest.username = ''alice'', SignupRequest.password = ''other'',
            SignupRequest.name = ''Mallory'', SignupRequest.email = ''m@x.com''\<rparr> alice_db =
     (Response \<lparr>SignupResponse.status = ''error'',
                 SignupResponse.message = ''Username already exists''\<rparr>, alice_db)
   \<and> http_status (fst (signup \<lparr>SignupRequest.username = ''alice'',
            SignupRequest.password = ''other'',
            SignupRequest.name = ''Mallory'', SignupRequest.email = ''m@x.com''\<rparr> alice_db)) = 200
   \<and> doc_get (snd (signup \<lparr>SignupRequest.username = ''alice'',
            SignupRequest.password = ''other'',
            SignupRequest.name = ''Mallory'', SignupRequest.email = ''m@x.com''\<rparr> alice_db))
         ''alice'' = Inr (Some alice_doc)"
  using signup_existing_username [of alice_db
      "\<lparr>SignupRequest.username = ''alice'', SignupRequest.password = ''other'',
        SignupRequest.name = ''Mallory'', SignupRequest.email = ''m@x.com''\<rparr>" alice_doc]
    alice_db_alice
  by simp

section \<open>Login failures\<close>

text \<open>
  Claim C4, as amended. A login for a username that the store accepts as a document id
  and that has no document returns HTTP 200 with status \<open>error\<close> and message
  \<open>Username not found\<close>; a login for an existing username whose stored password differs
  from the one sent returns HTTP 200 with status \<open>error\<close> and message
  \<open>Incorrect Password\<close>. In both cases the \<open>workspaces\<close> field of the response is
  \<open>None\<close>. The claim as written speaks of every username without a document; for an
  id that the client refuses, such as \<^verbatim>\<open>a/b\<close>, login answers HTTP 500, which the
  counterexample shows on the example store.
\<close>

theorem login_failures:
  "(doc_get db (LoginRequest.username request) = Inr None \<longrightarrow>
      login request db =
        (Response \<lparr>LoginResponse.status = ''error'',
                   LoginResponse.message = ''Username not found'',
                   LoginResponse.workspaces = None\<rparr>, db)
      \<and> http_status (fst (login request db)) = 200)
   \<and> (\<forall>user_data.
        doc_get db (LoginRequest.username request) = Inr (Some user_data)
        \<and> user_data ''password'' \<noteq> Some (VStr (LoginRequest.password request)) \<longrightarrow>
        login request db =
          (Response \<lparr>LoginResponse.status = ''error'',
                     LoginResponse.message = ''Incorrect Password'',
                     LoginResponse.workspaces = None\<rparr>, db)
        \<and> http_status (fst (login request db)) = 200)"
  by (simp add: login_unknown login_wrong_password)

theorem login_failures_witness:
  "login \<lparr>LoginRequest.username = ''bob'', LoginRequest.password = ''pw1''\<rparr> alice_db =
     (Response \<lparr>LoginResponse.status = ''error'',
                 LoginResponse.message = ''Username not found'',
                 LoginResponse.workspaces = None\<rparr>, alice_db)
   \<and> login \<lparr>LoginRequest.username = ''alice'', LoginRequest.password = ''pw2''\<rparr> alice_db =
     (Response \<lparr>LoginResponse.status = ''error'',
                 LoginResponse.message = ''Incorrect Password'',
                 LoginResponse.workspaces = None\<rparr>, alice_db)"
proof -
  have bob: "doc_get alice_db
      (LoginRequest.username \<lparr>LoginRequest.username = ''bob'', LoginRequest.password = ''pw1''\<rparr>)
      = Inr None"
    by (simp add: alice_db_bob)
  have alice: "doc_get alice_db
      (LoginRequest.username \<lparr>LoginRequest.username = ''alice'', LoginRequest.password = ''pw2''\<rparr>)
      = Inr (Some alice_doc)
    \<and> alice_doc ''password'' \<noteq> Some (VStr (LoginRequest.password
        \<lparr>LoginRequest.username = ''alice'', LoginRequest.password = ''pw2''\<rparr>))"
    by (simp add: alice_db_alice alice_doc_def)
  from bob alice
    login_failures [of alice_db
      "\<lparr>LoginRequest.username = ''bob'', LoginRequest.password = ''pw1''\<rparr>"]
    login_failures [of alice_db
      "\<lparr>LoginRequest.username = ''alice'', LoginRequest.password = ''pw2''\<rparr>"]
  show ?thesis by blast
qed

theorem login_failures_counterexample:
  "documents alice_db ''a/b'' = None
   \<and> login \<lparr>LoginRequest.username = ''a/b'', LoginRequest.password = ''pw1''\<rparr> alice_db =
       (HTTPException 500 (DetailStr ''Login failed: '' ValueError), alice_db)"
  using alice_db_slash
    login_refused [of alice_db
      "\<lparr>LoginRequest.username = ''a/b'', LoginRequest.password = ''pw1''\<rparr>" ValueError]
  by simp

section \<open>Deleting a workspace\<close>

text \<open>
  Claim C5. For an existing user whose workspace map is \<open>ws\<close>: deleting a name \<open>W\<close>
  that is not a key of \<open>ws\<close> raises HTTP 404 with the detail \<open>Workspace 'W' not found\<close>;
  deleting a name that is a key of \<open>ws\<close> returns status \<open>success\<close>, and the listing
  that follows succeeds with a map that does not have \<open>W\<close> as a key. The delete writes
  the rest of the stored map back, so the second half is about a stored map that the
  store accepts, as every map is that it stored (\<open>accepts_value_delete\<close>: what is left of
  an accepted map is accepted).
\<close>

theorem delete_then_list:
  assumes "doc_get db u = Inr (Some user_data)"
    and "dict_get user_data ''workspaces'' (VMap Map.empty) = VMap ws"
  shows "(W \<notin> dom ws \<longrightarrow>
            fst (delete_workspace
                   \<lparr>DeleteWorkspaceRequest.username = u,
                    DeleteWorkspaceRequest.workspace_name = W\<rparr> db) =
              HTTPException 404 (Detail (''Workspace '' @ quoted W @ '' not found'')))
       \<and> (W \<in> dom ws \<and> accepts_value db (VMap ws) \<longrightarrow>
            fst (delete_workspace
                   \<lparr>DeleteWorkspaceRequest.username = u,
                    DeleteWorkspaceRequest.workspace_name = W\<rparr> db) =
              Response \<lparr>DeleteWorkspaceResponse.status = ''success'',
                         DeleteWorkspaceResponse.message =
                           ''Workspace '' @ quoted W @ '' deleted successfully''\<rparr>
            \<and> (\<exists>m. fst (get_all_workspaces \<lparr>GetWorkspacesRequest.username = u\<rparr>
                        (snd (delete_workspace
                                \<lparr>DeleteWorkspaceRequest.username = u,
                                 DeleteWorkspaceRequest.workspace_name = W\<rparr> db))) =
                      Response \<lparr>GetWorkspacesResponse.status = ''success'',
                                 GetWorkspacesResponse.workspaces = m\<rparr>
                    \<and> W \<notin> dom m))"
proof -
  let ?r = "\<lparr>DeleteWorkspaceRequest.username = u,
             DeleteWorkspaceRequest.workspace_name = W\<rparr>"
  let ?l = "\<lparr>GetWorkspacesRequest.username = u\<rparr>"
  let ?d' = "user_data(''workspaces'' \<mapsto> VMap (ws(W := None)))"
  let ?db' = "db\<lparr>documents := (documents db)(u \<mapsto> ?d')\<rparr>"
  from doc_get_exists [OF assms(1)] have id: "accepts_id db u" ..
  have missing: "fst (delete_workspace ?r db) =
      HTTPException 404 (Detail (''Workspace '' @ quoted W @ '' not found''))"
    if "W \<notin> dom ws"
    using delete_workspace_missing [of db ?r user_data ws] assms that by simp
  have present: "fst (delete_workspace ?r db) =
        Response \<lparr>DeleteWorkspaceResponse.status = ''success'',
                   DeleteWorkspaceResponse.message =
                     ''Workspace '' @ quoted W @ '' deleted successfully''\<rparr>
      \<and> (\<exists>m. fst (get_all_workspaces ?l (snd (delete_workspace ?r db))) =
                Response \<lparr>GetWorkspacesResponse.status = ''success'',
                           GetWorkspacesResponse.workspaces = m\<rparr>
              \<and> W \<notin> dom m)"
    if "W \<in> dom ws" and acc: "accepts_value db (VMap ws)"
  proof -
    from acc have "accepts_value db (VMap (ws(W := None)))"
      by (rule accepts_value_delete)
    then have del: "delete_workspace ?r db =
        (Response \<lparr>DeleteWorkspaceResponse.status = ''success'',
                   DeleteWorkspaceResponse.message =
                     ''Workspace '' @ quoted W @ '' deleted successfully''\<rparr>, ?db')"
      using delete_workspace_ok [of db ?r user_data ws] assms that(1)
      by simp
    have "doc_get ?db' u = Inr (Some ?d')"
      using id by (simp add: doc_get_def)
    moreover have "dict_get ?d' ''workspaces'' (VMap Map.empty) = VMap (ws(W := None))"
      by (rule dict_get_workspaces_upd)
    ultimately have "get_all_workspaces ?l ?db' =
        (Response \<lparr>GetWorkspacesResponse.status = ''success'',
                   GetWorkspacesResponse.workspaces = ws(W := None)\<rparr>, ?db')"
      using get_all_workspaces_ok [of ?db' ?l ?d' "ws(W := None)"] by simp
    with del have "fst (get_all_workspaces ?l (snd (delete_workspace ?r db))) =
        Response \<lparr>GetWorkspacesResponse.status = ''success'',
                   GetWorkspacesResponse.workspaces = ws(W := None)\<rparr>
        \<and> W \<notin> dom (ws(W := None))"
      by simp
    then have "\<exists>m. fst (get_all_workspaces ?l (snd (delete_workspace ?r db))) =
        Response \<lparr>GetWorkspacesResponse.status = ''success'',
                   GetWorkspacesResponse.workspaces = m\<rparr> \<and> W \<notin> dom m"
      by blast
    with del show ?thesis by simp
  qed
  from missing present show ?thesis by blast
qed

theorem delete_then_list_witness:
  "fst (delete_workspace
          \<lparr>DeleteWorkspaceRequest.username = ''alice'',
           DeleteWorkspaceRequest.workspace_name = ''proj9''\<rparr> alice_db) =
     HTTPException 404 (Detail (''Workspace '' @ quoted ''proj9'' @ '' not found''))
   \<and> fst (delete_workspace
          \<lparr>DeleteWorkspaceRequest.username = ''alice'',
           DeleteWorkspaceRequest.workspace_name = ''proj1''\<rparr> alice_db) =
     Response \<lparr>DeleteWorkspaceResponse.status = ''success'',
                DeleteWorkspaceResponse.message =
                  ''Workspace '' @ quoted ''proj1'' @ '' deleted successfully''\<rparr>
   \<and> (\<exists>m. fst (get_all_workspaces \<lparr>GetWorkspacesRequest.username = ''alice''\<rparr>
               (snd (delete_workspace
                       \<lparr>DeleteWorkspaceRequest.username = ''alice'',
                        DeleteWorkspaceRequest.workspace_name = ''proj1''\<rparr> alice_db))) =
             Response \<lparr>GetWorkspacesResponse.status = ''success'',
                        GetWorkspacesResponse.workspaces = m\<rparr>
           \<and> ''proj1'' \<notin> dom m)"
proof -
  have absent: "''proj9'' \<notin> dom alice_workspaces"
    by (simp add: alice_workspaces_def)
  have present: "''proj1'' \<in> dom alice_workspaces"
    by (simp add: alice_workspaces_def)
  from absent present alice_workspaces_accepted
    delete_then_list [OF alice_db_alice alice_doc_workspaces, of "''proj9''"]
    delete_then_list [OF alice_db_alice alice_doc_workspaces, of "''proj1''"]
  show ?thesis by blast
qed

section \<open>Requests for a username that has no document\<close>

text \<open>
  Claim C6, as amended. For every username that the store accepts as a document id and
  that has no document, upsert, list and delete raise HTTP 404 (detail
  \<open>User not found\<close>), while login returns HTTP 200 with an error body. The claim as
  written speaks of every username without a document; for an id that the client
  refuses, such as \<^verbatim>\<open>a/b\<close>, all four handlers answer HTTP 500, which the
  counterexample shows on the example store.
\<close>

theorem unknown_username:
  assumes "doc_get db u = Inr None"
  shows "fst (create_update_workspace
                \<lparr>CreateWorkspaceRequest.username = u,
                 CreateWorkspaceRequest.workspace_name = W,
                 CreateWorkspaceRequest.state = S\<rparr> db) =
           HTTPException 404 (Detail ''User not found'')
       \<and> fst (get_all_workspaces \<lparr>GetWorkspacesRequest.username = u\<rparr> db) =
           HTTPException 404 (Detail ''User not found'')
       \<and> fst (delete_workspace
                \<lparr>DeleteWorkspaceRequest.username = u,
                 DeleteWorkspaceRequest.workspace_name = W\<rparr> db) =
           HTTPException 404 (Detail ''User not found'')
       \<and> fst (login \<lparr>LoginRequest.username = u, LoginRequest.password = p\<rparr> db) =
           Response \<lparr>LoginResponse.status = ''error'',
                      LoginResponse.message = ''Username not found'',
                      LoginResponse.workspaces = None\<rparr>
       \<and> http_status (fst (login \<lparr>LoginRequest.username = u, LoginRequest.password = p\<rparr> db))
           = 200"
  using assms
  by (simp add: create_update_workspace_unknown get_all_workspaces_unknown
      delete_workspace_unknown login_unknown)

theorem unknown_username_witness:
  "http_status (fst (create_update_workspace
                \<lparr>CreateWorkspaceRequest.username = ''bob'',
                 CreateWorkspaceRequest.workspace_name = ''proj1'',
                 CreateWorkspaceRequest.state = JObject []\<rparr> alice_db)) = 404
   \<and> http_status (fst (get_all_workspaces
                \<lparr>GetWorkspacesRequest.username = ''bob''\<rparr> alice_db)) = 404
   \<and> http_status (fst (delete_workspace
                \<lparr>DeleteWorkspaceRequest.username = ''bob'',
                 DeleteWorkspaceRequest.workspace_name = ''proj1''\<rparr> alice_db)) = 404
   \<and> http_status (fst (login
                \<lparr>LoginRequest.username = ''bob'', LoginRequest.password = ''pw1''\<rparr>
                alice_db)) = 200"
  using unknown_username [OF alice_db_bob, of "''proj1''" "JObject []" "''pw1''"]
  by simp

theorem unknown_username_counterexample:
  "documents alice_db ''a/b'' = None
   \<and> http_status (fst (create_update_workspace
                \<lparr>CreateWorkspaceRequest.username = ''a/b'',
                 CreateWorkspaceRequest.workspace_name = ''proj1'',
                 CreateWorkspaceRequest.state = JObject []\<rparr> alice_db)) = 500
   \<and> http_status (fst (get_all_workspaces
                \<lparr>GetWorkspacesRequest.username = ''a/b''\<rparr> alice_db)) = 500
   \<and> http_status (fst (delete_workspace
                \<lparr>DeleteWorkspaceRequest.username = ''a/b'',
                 DeleteWorkspaceRequest.workspace_name = ''proj1''\<rparr> alice_db)) = 500
   \<and> http_status (fst (login
                \<lparr>LoginRequest.username = ''a/b'', LoginRequest.password = ''pw1''\<rparr>
                alice_db)) = 500"
  using alice_db_slash
    create_update_workspace_refused [of alice_db
      "\<lparr>CreateWorkspaceRequest.username = ''a/b'',
        CreateWorkspaceRequest.workspace_name = ''proj1'',
        CreateWorkspaceRequest.state = JObject []\<rparr>" ValueError]
    get_all_workspaces_refused [of alice_db
      "\<lparr>GetWorkspacesRequest.username = ''a/b''\<rparr>" ValueError]
    delete_workspace_refused [of alice_db
      "\<lparr>DeleteWorkspaceRequest.username = ''a/b'',
        DeleteWorkspaceRequest.workspace_name = ''proj1''\<rparr>" ValueError]
    login_refused [of alice_db
      "\<lparr>LoginRequest.username = ''a/b'', LoginRequest.password = ''pw1''\<rparr>" ValueError]
  by simp

section \<open>What the workspace operations leave alone\<close>

text \<open>
  Claim C7. For every user \<open>u\<close> with a document \<open>d\<close>: after an upsert and after a
  delete for \<open>u\<close> the document of \<open>u\<close> still exists and its fields \<open>username\<close>,
  \<open>password\<close>, \<open>name\<close> and \<open>email\<close> are those of \<open>d\<close>; the documents of all other
  users are as before; and after any sequence of requests to any of the routes \<open>u\<close> still
  has a document.
\<close>

theorem workspace_operations_frame:
  assumes "doc_get db u = Inr (Some d)"
  shows "(\<exists>d'. doc_get (snd (create_update_workspace
                    \<lparr>CreateWorkspaceRequest.username = u,
                     CreateWorkspaceRequest.workspace_name = W,
                     CreateWorkspaceRequest.state = S\<rparr> db)) u = Inr (Some d')
              \<and> d' ''username'' = d ''username'' \<and> d' ''password'' = d ''password''
              \<and> d' ''name'' = d ''name'' \<and> d' ''email'' = d ''email'')
       \<and> (\<exists>d'. doc_get (snd (delete_workspace
                    \<lparr>DeleteWorkspaceRequest.username = u,
                     DeleteWorkspaceRequest.workspace_name = W\<rparr> db)) u = Inr (Some d')
              \<and> d' ''username'' = d ''username'' \<and> d' ''password'' = d ''password''
              \<and> d' ''name'' = d ''name'' \<and> d' ''email'' = d ''email'')
       \<and> (\<forall>u'. u' \<noteq> u \<longrightarrow>
              doc_get (snd (create_update_workspace
                    \<lparr>CreateWorkspaceRequest.username = u,
                     CreateWorkspaceRequest.workspace_name = W,
                     CreateWorkspaceRequest.state = S\<rparr> db)) u' = doc_get db u'
            \<and> doc_get (snd (delete_workspace
                    \<lparr>DeleteWorkspaceRequest.username = u,
                     DeleteWorkspaceRequest.workspace_name = W\<rparr> db)) u' = doc_get db u')
       \<and> (\<exists>d'. doc_get (serve rs db) u = Inr (Some d'))"
proof -
  let ?up = "\<lparr>CreateWorkspaceRequest.username = u,
              CreateWorkspaceRequest.workspace_name = W,
              CreateWorkspaceRequest.state = S\<rparr>"
  let ?del = "\<lparr>DeleteWorkspaceRequest.username = u,
               DeleteWorkspaceRequest.workspace_name = W\<rparr>"
  from upsert_keeps_fields [OF assms, of ?up]
  obtain d1 where d1: "doc_get (snd (create_update_workspace ?up db)) u = Inr (Some d1)"
    "\<forall>f. f \<noteq> ''workspaces'' \<longrightarrow> d1 f = d f"
    by blast
  from d1(2) have "d1 ''username'' = d ''username'' \<and> d1 ''password'' = d ''password''
      \<and> d1 ''name'' = d ''name'' \<and> d1 ''email'' = d ''email''"
    by simp
  with d1(1) have up: "\<exists>d'. doc_get (snd (create_update_workspace ?up db)) u = Inr (Some d')
      \<and> d' ''username'' = d ''username'' \<and> d' ''password'' = d ''password''
      \<and> d' ''name'' = d ''name'' \<and> d' ''email'' = d ''email''"
    by blast
  from delete_keeps_fields [OF assms, of ?del]
  obtain d2 where d2: "doc_get (snd (delete_workspace ?del db)) u = Inr (Some d2)"
    "\<forall>f. f \<noteq> ''workspaces'' \<longrightarrow> d2 f = d f"
    by blast
  from d2(2) have "d2 ''username'' = d ''username'' \<and> d2 ''password'' = d ''password''
      \<and> d2 ''name'' = d ''name'' \<and> d2 ''email'' = d ''email''"
    by simp
  with d2(1) have del: "\<exists>d'. doc_get (snd (delete_workspace ?del db)) u = Inr (Some d')
      \<and> d' ''username'' = d ''username'' \<and> d' ''password'' = d ''password''
      \<and> d' ''name'' = d ''name'' \<and> d' ''email'' = d ''email''"
    by blast
  have others: "\<forall>u'. u' \<noteq> u \<longrightarrow>
      doc_get (snd (create_update_workspace ?up db)) u' = doc_get db u'
      \<and> doc_get (snd (delete_workspace ?del db)) u' = doc_get db u'"
    using upsert_keeps_others [of _ ?up db] delete_keeps_others [of _ ?del db] by simp
  from up del others serve_keeps_documents [OF assms, of rs]
  show ?thesis by blast
qed

theorem workspace_operations_frame_witness:
  "(\<exists>d'. doc_get (snd (create_update_workspace
                \<lparr>CreateWorkspaceRequest.username = ''alice'',
                 CreateWorkspaceRequest.workspace_name = ''proj2'',
                 CreateWorkspaceRequest.state = JObject []\<rparr> alice_db)) ''alice''
            = Inr (Some d')
          \<and> d' ''username'' = Some (VStr ''alice'') \<and> d' ''password'' = Some (VStr ''pw1'')
          \<and> d' ''name'' = Some (VStr ''Alice'') \<and> d' ''email'' = Some (VStr ''a@x.com''))
   \<and> (\<exists>d'. doc_get (snd (delete_workspace
                \<lparr>DeleteWorkspaceRequest.username = ''alice'',
                 DeleteWorkspaceRequest.workspace_name = ''proj2''\<rparr> alice_db)) ''alice''
            = Inr (Some d')
          \<and> d' ''username'' = Some (VStr ''alice'') \<and> d' ''password'' = Some (VStr ''pw1'')
          \<and> d' ''name'' = Some (VStr ''Alice'') \<and> d' ''email'' = Some (VStr ''a@x.com''))
   \<and> doc_get (snd (create_update_workspace
                \<lparr>CreateWorkspaceRequest.username = ''alice'',
                 CreateWorkspaceRequest.workspace_name = ''proj2'',
                 CreateWorkspaceRequest.state = JObject []\<rparr> alice_db)) ''bob'' = Inr None
   \<and> (\<exists>d'. doc_get (serve
                [DELETE_workspace \<lparr>DeleteWorkspaceRequest.username = ''alice'',
                                   DeleteWorkspaceRequest.workspace_name = ''proj1''\<rparr>,
                 POST_signup \<lparr>SignupRequest.username = ''alice'',
                              SignupRequest.password = ''pw3'',
                              SignupRequest.name = ''A'', SignupRequest.email = ''a@y.com''\<rparr>]
                alice_db) ''alice'' = Inr (Some d'))"
proof -
  have fields: "alice_doc ''username'' = Some (VStr ''alice'')
      \<and> alice_doc ''password'' = Some (VStr ''pw1'')
      \<and> alice_doc ''name'' = Some (VStr ''Alice'')
      \<and> alice_doc ''email'' = Some (VStr ''a@x.com'')"
    by (simp add: alice_doc_def)
  have bob: "''bob'' \<noteq> ''alice''"
    by simp
  from workspace_operations_frame [OF alice_db_alice, of "''proj2''" "JObject []"
      "[DELETE_workspace \<lparr>DeleteWorkspaceRequest.username = ''alice'',
                          DeleteWorkspaceRequest.workspace_name = ''proj1''\<rparr>,
        POST_signup \<lparr>SignupRequest.username = ''alice'',
                     SignupRequest.password = ''pw3'',
                     SignupRequest.name = ''A'', SignupRequest.email = ''a@y.com''\<rparr>]"]
    fields bob alice_db_bob
  show ?thesis by metis
qed

section \<open>What an upsert or a delete does to the other workspaces\<close>

text \<open>
  Claim C8. For an existing user whose workspace map is \<open>ws\<close> and names \<open>W2 \<noteq> W\<close>:
  after an upsert of \<open>W\<close> the stored map has \<open>W2\<close> as in \<open>ws\<close> (the same state, or
  still absent), and after a delete of \<open>W\<close> the stored map has \<open>W2\<close> as in \<open>ws\<close>,
  whether the store took the write or refused it. When the stored map is one the store
  accepts, the delete leaves no entry \<open>W\<close>, and the upsert of an accepted name and
  state leaves \<open>W\<close> mapped to the new state.
\<close>

theorem other_workspaces_unchanged:
  assumes "doc_get db u = Inr (Some d)"
    and "dict_get d ''workspaces'' (VMap Map.empty) = VMap ws"
    and "W2 \<noteq> W"
  shows "(\<exists>d' ws'. doc_get (snd (create_update_workspace
                        \<lparr>CreateWorkspaceRequest.username = u,
                         CreateWorkspaceRequest.workspace_name = W,
                         CreateWorkspaceRequest.state = S\<rparr> db)) u = Inr (Some d')
                 \<and> dict_get d' ''workspaces'' (VMap Map.empty) = VMap ws'
                 \<and> ws' W2 = ws W2
                 \<and> (accepts_value db (VMap ws) \<and> accepts_key db W \<and> accepts_state db S
                      \<longrightarrow> ws' W = Some S))
       \<and> (\<exists>d' ws'. doc_get (snd (delete_workspace
                        \<lparr>DeleteWorkspaceRequest.username = u,
                         DeleteWorkspaceRequest.workspace_name = W\<rparr> db)) u = Inr (Some d')
                 \<and> dict_get d' ''workspaces'' (VMap Map.empty) = VMap ws'
                 \<and> ws' W2 = ws W2
                 \<and> (accepts_value db (VMap ws) \<longrightarrow> ws' W = None))"
proof -
  let ?up = "\<lparr>CreateWorkspaceRequest.username = u,
              CreateWorkspaceRequest.workspace_name = W,
              CreateWorkspaceRequest.state = S\<rparr>"
  let ?del = "\<lparr>DeleteWorkspaceRequest.username = u,
               DeleteWorkspaceRequest.workspace_name = W\<rparr>"
  let ?d1 = "d(''workspaces'' \<mapsto> VMap (ws(W \<mapsto> S)))"
  let ?d2 = "d(''workspaces'' \<mapsto> VMap (ws(W := None)))"
  let ?acc1 = "accepts_value db (VMap (ws(W \<mapsto> S)))"
  let ?acc2 = "accepts_value db (VMap (ws(W := None)))"
  from doc_get_exists [OF assms(1)] have id: "accepts_id db u" ..
  have up: "\<exists>d' ws'. doc_get (snd (create_update_workspace ?up db)) u = Inr (Some d')
      \<and> dict_get d' ''workspaces'' (VMap Map.empty) = VMap ws'
      \<and> ws' W2 = ws W2
      \<and> (accepts_value db (VMap ws) \<and> accepts_key db W \<and> accepts_state db S
           \<longrightarrow> ws' W = Some S)"
  proof (cases ?acc1)
    case True
    then have "snd (create_update_workspace ?up db) = db\<lparr>documents := (documents db)(u \<mapsto> ?d1)\<rparr>"
      using create_update_workspace_ok [of db ?up d ws] assms(1,2)
      by simp
    then have "doc_get (snd (create_update_workspace ?up db)) u = Inr (Some ?d1)
        \<and> dict_get ?d1 ''workspaces'' (VMap Map.empty) = VMap (ws(W \<mapsto> S))
        \<and> (ws(W \<mapsto> S)) W2 = ws W2 \<and> (ws(W \<mapsto> S)) W = Some S"
      using assms(3) id by (simp add: doc_get_def dict_get_workspaces_upd)
    then show ?thesis by blast
  next
    case False
    then have "snd (create_update_workspace ?up db) = db"
      using create_update_workspace_rejected [of db ?up d ws] assms(1,2)
      by simp
    moreover have "\<not> (accepts_value db (VMap ws) \<and> accepts_key db W \<and> accepts_state db S)"
      using False accepts_value_upsert [of db ws W S] by blast
    ultimately have "doc_get (snd (create_update_workspace ?up db)) u = Inr (Some d)
        \<and> dict_get d ''workspaces'' (VMap Map.empty) = VMap ws
        \<and> ws W2 = ws W2
        \<and> (accepts_value db (VMap ws) \<and> accepts_key db W \<and> accepts_state db S
             \<longrightarrow> ws W = Some S)"
      using assms(1,2) by auto
    then show ?thesis by blast
  qed
  have del: "\<exists>d' ws'. doc_get (snd (delete_workspace ?del db)) u = Inr (Some d')
      \<and> dict_get d' ''workspaces'' (VMap Map.empty) = VMap ws'
      \<and> ws' W2 = ws W2
      \<and> (accepts_value db (VMap ws) \<longrightarrow> ws' W = None)"
  proof (cases "W \<in> dom ws \<and> ?acc2")
    case True
    then have "snd (delete_workspace ?del db) = db\<lparr>documents := (documents db)(u \<mapsto> ?d2)\<rparr>"
      using delete_workspace_ok [of db ?del d ws] assms(1,2)
      by simp
    then have "doc_get (snd (delete_workspace ?del db)) u = Inr (Some ?d2)
        \<and> dict_get ?d2 ''workspaces'' (VMap Map.empty) = VMap (ws(W := None))
        \<and> (ws(W := None)) W2 = ws W2 \<and> (ws(W := None)) W = None"
      using assms(3) id by (simp add: doc_get_def dict_get_workspaces_upd)
    then show ?thesis by blast
  next
    case False
    have same: "snd (delete_workspace ?del db) = db"
      using delete_workspace_store [of ?del db] delete_workspace_failure_store [of ?del db]
        delete_workspace_missing [of db ?del d ws] False assms(1,2)
      by (auto simp: delete_workspace_def delete_workspace_try_def doc_update_def
         )
    have "accepts_value db (VMap ws) \<longrightarrow> ws W = None"
      using False accepts_value_delete [of db ws W] by (auto)
    with same assms(1,2) have "doc_get (snd (delete_workspace ?del db)) u = Inr (Some d)
        \<and> dict_get d ''workspaces'' (VMap Map.empty) = VMap ws
        \<and> ws W2 = ws W2 \<and> (accepts_value db (VMap ws) \<longrightarrow> ws W = None)"
      by simp
    then show ?thesis by blast
  qed
  from up del show ?thesis ..
qed

theorem other_workspaces_unchanged_witness:
  "(\<exists>d' ws'. doc_get (snd (create_update_workspace
                  \<lparr>CreateWorkspaceRequest.username = ''alice'',
                   CreateWorkspaceRequest.workspace_name = ''proj2'',
                   CreateWorkspaceRequest.state = JObject []\<rparr> alice_db)) ''alice''
              = Inr (Some d')
           \<and> dict_get d' ''workspaces'' (VMap Map.empty) = VMap ws'
           \<and> ws' ''proj1'' = Some (JObject [(''x'', JInt 1)])
           \<and> ws' ''proj2'' = Some (JObject []))
   \<and> (\<exists>d' ws'. doc_get (snd (delete_workspace
                  \<lparr>DeleteWorkspaceRequest.username = ''alice'',
                   DeleteWorkspaceRequest.workspace_name = ''proj2''\<rparr> alice_db)) ''alice''
              = Inr (Some d')
           \<and> dict_get d' ''workspaces'' (VMap Map.empty) = VMap ws'
           \<and> ws' ''proj1'' = Some (JObject [(''x'', JInt 1)])
           \<and> ws' ''proj2'' = None)"
proof -
  have ne: "''proj1'' \<noteq> ''proj2''"
    by simp
  have proj1: "alice_workspaces ''proj1'' = Some (JObject [(''x'', JInt 1)])"
    by (simp add: alice_workspaces_def)
  have k: "accepts_key alice_db ''proj2''"
    by (simp add: alice_db_keys)
  have s: "accepts_state alice_db (JObject [])"
    by (simp add: alice_db_keys)
  from other_workspaces_unchanged [OF alice_db_alice alice_doc_workspaces ne, of "JObject []"]
    proj1 k s alice_workspaces_accepted
  show ?thesis by simp
qed

section \<open>Login and listing only read\<close>

text \<open>
  Claim C9. Login and list-workspaces leave the store as it was, for every request and
  every store, whether they succeed or fail.
\<close>

theorem reads_keep_store:
  "snd (login request db) = db \<and> snd (get_all_workspaces request' db) = db"
  by (simp add: login_store get_all_workspaces_store)

theorem reads_keep_store_witness:
  "snd (login \<lparr>LoginRequest.username = ''alice'', LoginRequest.password = ''pw1''\<rparr> alice_db)
     = alice_db
   \<and> snd (get_all_workspaces \<lparr>GetWorkspacesRequest.username = ''bob''\<rparr> alice_db) = alice_db"
  using reads_keep_store [of
      "\<lparr>LoginRequest.username = ''alice'', LoginRequest.password = ''pw1''\<rparr>" alice_db
      "\<lparr>GetWorkspacesRequest.username = ''bob''\<rparr>"]
  by simp

section \<open>Errors leave the store as it was\<close>

text \<open>
  Claim C10. Whenever login or signup returns a body with status \<open>error\<close>, or a
  workspace handler raises HTTP 404, the store after the request is the store before it.
\<close>

theorem errors_keep_store:
  "(\<forall>body. fst (login lr db) = Response body \<and> LoginResponse.status body = ''error''
      \<longrightarrow> snd (login lr db) = db)
   \<and> (\<forall>body. fst (signup sr db) = Response body \<and> SignupResponse.status body = ''error''
      \<longrightarrow> snd (signup sr db) = db)
   \<and> (http_status (fst (create_update_workspace cr db)) = 404
      \<longrightarrow> snd (create_update_workspace cr db) = db)
   \<and> (http_status (fst (get_all_workspaces gr db)) = 404
      \<longrightarrow> snd (get_all_workspaces gr db) = db)
   \<and> (http_status (fst (delete_workspace dr db)) = 404
      \<longrightarrow> snd (delete_workspace dr db) = db)"
  using signup_error_store [of sr db]
  by (simp add: login_store get_all_workspaces_store
      create_update_workspace_failure_store delete_workspace_failure_store)

theorem errors_keep_store_witness:
  "snd (login \<lparr>LoginRequest.username = ''alice'', LoginRequest.password = ''pw2''\<rparr> alice_db)
     = alice_db
   \<and> snd (signup \<lparr>SignupRequest.username = ''alice'', SignupRequest.password = ''pw1'',
                   SignupRequest.name = ''Alice'', SignupRequest.email = ''a@x.com''\<rparr> alice_db)
     = alice_db
   \<and> snd (create_update_workspace
            \<lparr>CreateWorkspaceRequest.username = ''bob'',
             CreateWorkspaceRequest.workspace_name = ''proj1'',
             CreateWorkspaceRequest.state = JObject []\<rparr> alice_db) = alice_db
   \<and> snd (get_all_workspaces \<lparr>GetWorkspacesRequest.username = ''bob''\<rparr> alice_db) = alice_db
   \<and> snd (delete_workspace
            \<lparr>DeleteWorkspaceRequest.username = ''alice'',
             DeleteWorkspaceRequest.workspace_name = ''proj9''\<rparr> alice_db) = alice_db"
proof -
  let ?lr = "\<lparr>LoginRequest.username = ''alice'', LoginRequest.password = ''pw2''\<rparr>"
  let ?sr = "\<lparr>SignupRequest.username = ''alice'', SignupRequest.password = ''pw1'',
              SignupRequest.name = ''Alice'', SignupRequest.email = ''a@x.com''\<rparr>"
  let ?cr = "\<lparr>CreateWorkspaceRequest.username = ''bob'',
              CreateWorkspaceRequest.workspace_name = ''proj1'',
              CreateWorkspaceRequest.state = JObject []\<rparr>"
  let ?gr = "\<lparr>GetWorkspacesRequest.username = ''bob''\<rparr>"
  let ?dr = "\<lparr>DeleteWorkspaceRequest.username = ''alice'',
              DeleteWorkspaceRequest.workspace_name = ''proj9''\<rparr>"
  have l: "fst (login ?lr alice_db) =
      Response \<lparr>LoginResponse.status = ''error'',
                 LoginResponse.message = ''Incorrect Password'',
                 LoginResponse.workspaces = None\<rparr>"
    using login_wrong_password [of alice_db ?lr alice_doc]
    by (simp add: alice_db_alice alice_doc_def)
  have s: "fst (signup ?sr alice_db) =
      Response \<lparr>SignupResponse.status = ''error'',
                 SignupResponse.message = ''Username already exists''\<rparr>"
    using signup_existing [of alice_db ?sr alice_doc] by (simp add: alice_db_alice)
  have c: "http_status (fst (create_update_workspace ?cr alice_db)) = 404"
    using create_update_workspace_unknown [of alice_db ?cr] by (simp add: alice_db_bob)
  have g: "http_status (fst (get_all_workspaces ?gr alice_db)) = 404"
    using get_all_workspaces_unknown [of alice_db ?gr] by (simp add: alice_db_bob)
  have d: "http_status (fst (delete_workspace ?dr alice_db)) = 404"
    using delete_workspace_missing [of alice_db ?dr alice_doc alice_workspaces]
    by (simp add: alice_db_alice alice_doc_workspaces alice_workspaces_def)
  from l s c g d errors_keep_store [of ?lr alice_db ?sr ?cr ?gr ?dr]
  show ?thesis by simp
qed

section \<open>The stores the server can reach\<close>

text \<open>
  Extra X1. Every document of a store reached from a store without documents by any
  sequence of requests is an account: the store accepts its id, its \<open>username\<close> is its
  key, its \<open>password\<close>, \<open>name\<close> and \<open>email\<close> are strings and its \<open>workspaces\<close> is a
  map that the store accepts. So the documents that the claims on existing users speak of
  are the only ones the server meets.
\<close>

theorem reachable_accounts: "documents db = Map.empty \<Longrightarrow> accounts (serve rs db)"
  by (rule serve_accounts) (simp add: accounts_def)

theorem reachable_accounts_witness: "accounts alice_db"
  using reachable_accounts [of empty_db alice_requests]
  by (simp add: alice_db_served empty_db_fields)

section \<open>A document that is not an account\<close>

text \<open>
  Extra X2. When the \<open>workspaces\<close> field of a user's document holds a string, the
  upsert fails on the item assignment and the listing fails on the response model: both
  answer HTTP 500 and leave the store as it was.
\<close>

theorem string_workspaces:
  assumes "doc_get db u = Inr (Some d)"
    and "dict_get d ''workspaces'' (VMap Map.empty) = VStr s"
  shows "create_update_workspace
           \<lparr>CreateWorkspaceRequest.username = u,
            CreateWorkspaceRequest.workspace_name = W,
            CreateWorkspaceRequest.state = S\<rparr> db =
           (HTTPException 500 (DetailStr ''Error creating workspace: '' TypeError), db)
       \<and> get_all_workspaces \<lparr>GetWorkspacesRequest.username = u\<rparr> db =
           (HTTPException 500 (DetailStr ''Error getting workspaces: '' ValidationError), db)"
  using assms
  by (simp add: create_update_workspace_def create_update_workspace_try_def
      get_all_workspaces_def get_all_workspaces_try_def)

theorem string_workspaces_witness:
  "create_update_workspace
     \<lparr>CreateWorkspaceRequest.username = ''eve'',
      CreateWorkspaceRequest.workspace_name = ''proj1'',
      CreateWorkspaceRequest.state = JObject []\<rparr> eve_db =
     (HTTPException 500 (DetailStr ''Error creating workspace: '' TypeError), eve_db)
   \<and> get_all_workspaces \<lparr>GetWorkspacesRequest.username = ''eve''\<rparr> eve_db =
     (HTTPException 500 (DetailStr ''Error getting workspaces: '' ValidationError), eve_db)"
  using string_workspaces [OF eve_db_eve eve_doc_workspaces, of "''proj1''" "JObject []"]
  by simp

section \<open>Failures leave the store as it was\<close>

text \<open>
  Extra X3. Whenever one of the five handlers answers with a status other than 200,
  whether 404 or 500, the store after the request is the store before it.
\<close>

theorem failures_keep_store:
  "(http_status (fst (login lr db)) \<noteq> 200 \<longrightarrow> snd (login lr db) = db)
   \<and> (http_status (fst (signup sr db)) \<noteq> 200 \<longrightarrow> snd (signup sr db) = db)
   \<and> (http_status (fst (create_update_workspace cr db)) \<noteq> 200
      \<longrightarrow> snd (create_update_workspace cr db) = db)
   \<and> (http_status (fst (get_all_workspaces gr db)) \<noteq> 200
      \<longrightarrow> snd (get_all_workspaces gr db) = db)
   \<and> (http_status (fst (delete_workspace dr db)) \<noteq> 200
      \<longrightarrow> snd (delete_workspace dr db) = db)"
  by (simp add: login_store get_all_workspaces_store signup_failure_store
      create_update_workspace_failure_store delete_workspace_failure_store)

theorem failures_keep_store_witness:
  "snd (delete_workspace
          \<lparr>DeleteWorkspaceRequest.username = ''eve'',
           DeleteWorkspaceRequest.workspace_name = ''proj1''\<rparr> eve_db) = eve_db"
proof -
  let ?dr = "\<lparr>DeleteWorkspaceRequest.username = ''eve'',
              DeleteWorkspaceRequest.workspace_name = ''proj1''\<rparr>"
  have "sublist ''proj1'' ''proj1 proj2''"
    by (simp add: sublist_Cons_right)
  then have "delete_workspace ?dr eve_db =
      (HTTPException 500 (DetailStr ''Error deleting workspace: '' TypeError), eve_db)"
    by (simp add: delete_workspace_def delete_workspace_try_def eve_db_eve eve_doc_workspaces)
  then have "http_status (fst (delete_workspace ?dr eve_db)) \<noteq> 200"
    by simp
  with failures_keep_store [of _ eve_db _ _ _ ?dr] show ?thesis
    by simp
qed

section \<open>A write that the store refuses\<close>

text \<open>
  Extra X4. When the store does not accept the workspace name or the state of an upsert
  for an existing user, \<^verbatim>\<open>update\<close> raises \<^verbatim>\<open>ValueError\<close>: the upsert answers
  HTTP 500 and the store is as it was. On the example store this is so for a state that
  holds the integer \<open>2 ^ 63\<close> and for a state with an empty key.
\<close>

theorem refused_write:
  assumes "doc_get db u = Inr (Some user_data)"
    and "dict_get user_data ''workspaces'' (VMap Map.empty) = VMap ws"
    and "\<not> (accepts_key db W \<and> accepts_state db S)"
  shows "create_update_workspace
           \<lparr>CreateWorkspaceRequest.username = u,
            CreateWorkspaceRequest.workspace_name = W,
            CreateWorkspaceRequest.state = S\<rparr> db =
           (HTTPException 500 (DetailStr ''Error creating workspace: '' ValueError), db)"
proof -
  let ?r = "\<lparr>CreateWorkspaceRequest.username = u,
             CreateWorkspaceRequest.workspace_name = W,
             CreateWorkspaceRequest.state = S\<rparr>"
  have "\<not> accepts_value db (VMap (ws(W \<mapsto> S)))"
    using accepts_value_entry [of db ws W S] assms(3) by blast
  then show ?thesis
    using create_update_workspace_rejected [of db ?r user_data ws] assms(1,2) by simp
qed

theorem refused_write_witness:
  "create_update_workspace
     \<lparr>CreateWorkspaceRequest.username = ''alice'',
      CreateWorkspaceRequest.workspace_name = ''proj3'',
      CreateWorkspaceRequest.state = JObject [(''n'', JInt (2 ^ 63))]\<rparr> alice_db =
     (HTTPException 500 (DetailStr ''Error creating workspace: '' ValueError), alice_db)
   \<and> create_update_workspace
     \<lparr>CreateWorkspaceRequest.username = ''alice'',
      CreateWorkspaceRequest.workspace_name = ''proj3'',
      CreateWorkspaceRequest.state = JObject [('''', JInt 1)]\<rparr> alice_db =
     (HTTPException 500 (DetailStr ''Error creating workspace: '' ValueError), alice_db)"
proof -
  have big: "\<not> (accepts_key alice_db ''proj3''
      \<and> accepts_state alice_db (JObject [(''n'', JInt (2 ^ 63))]))"
    by (simp add: alice_db_keys client_accepts_key_def)
  have key: "\<not> (accepts_key alice_db ''proj3''
      \<and> accepts_state alice_db (JObject [('''', JInt 1)]))"
    by (simp add: alice_db_keys client_accepts_key_def)
  from refused_write [OF alice_db_alice alice_doc_workspaces big]
    refused_write [OF alice_db_alice alice_doc_workspaces key]
  show ?thesis by simp
qed

end
